theory Spec2Isabelle
  imports Main
begin

section \<open>JavaScript values\<close>

text \<open>
  The server is untyped JavaScript: request bodies and model decisions are whatever
  \<^verbatim>\<open>JSON.parse\<close> delivers. A value is one of the JSON shapes or \<^verbatim>\<open>undefined\<close>.
  A number is represented by its canonical rendering (the result of
  \<^verbatim>\<open>Number.prototype.toString\<close>, e.g. \<open>0\<close>, \<open>42\<close>, \<open>1.5\<close>), which identifies the
  number and is all this program ever observes of it. A string is the list of its code
  units: an ASCII unit is one character, a unit above 127 is spelt in bytes the way
  UTF-8 does, so the ASCII characters the program searches for and replaces (braces,
  the single quote) occur exactly where they occur in the JavaScript string. An object
  is the list of its own properties in insertion order; a later binding of the same
  key overrides an earlier one.
\<close>

datatype jsval =
    JUndefined
  | JNull
  | JBool bool
  | JNum string
  | JStr string
  | JArr "jsval list"
  | JObj "(string \<times> jsval) list"

text \<open>ToBoolean: \<^verbatim>\<open>undefined\<close>, \<^verbatim>\<open>null\<close>, \<^verbatim>\<open>false\<close>, \<^verbatim>\<open>0\<close>, \<^verbatim>\<open>NaN\<close> and \<^verbatim>\<open>''\<close> are falsy.\<close>

fun truthy :: "jsval \<Rightarrow> bool" where
  "truthy JUndefined = False"
| "truthy JNull = False"
| "truthy (JBool b) = b"
| "truthy (JNum n) = (n \<noteq> ''0'' \<and> n \<noteq> ''NaN'')"
| "truthy (JStr s) = (s \<noteq> [])"
| "truthy (JArr xs) = True"
| "truthy (JObj ms) = True"

text \<open>\<^verbatim>\<open>a || b\<close> and \<^verbatim>\<open>a && b\<close> return one of their operands.\<close>

definition js_or :: "jsval \<Rightarrow> jsval \<Rightarrow> jsval" where
  "js_or a b = (if truthy a then a else b)"

definition js_and :: "jsval \<Rightarrow> jsval \<Rightarrow> jsval" where
  "js_and a b = (if truthy a then b else a)"

text \<open>
  Property read \<^verbatim>\<open>v.k\<close> on a value that is neither \<^verbatim>\<open>null\<close> nor \<^verbatim>\<open>undefined\<close>, for
  the property names this program reads from parsed JSON and database rows
  (\<^verbatim>\<open>sessionId\<close>, \<^verbatim>\<open>model\<close>, \<^verbatim>\<open>options\<close>, \<^verbatim>\<open>host\<close>, \<^verbatim>\<open>user\<close>, \<^verbatim>\<open>password\<close>,
  \<^verbatim>\<open>action\<close>, \<^verbatim>\<open>text\<close>, \<^verbatim>\<open>skillId\<close>, \<^verbatim>\<open>id\<close>, \<^verbatim>\<open>message\<close>, \<^verbatim>\<open>content\<close>): none of
  them is defined on a built-in prototype, so the read yields the object's own property
  or \<^verbatim>\<open>undefined\<close>. Every read in the handlers is guarded against \<^verbatim>\<open>null\<close> and
  \<^verbatim>\<open>undefined\<close> (\<^verbatim>\<open>req.body || {}\<close>, \<^verbatim>\<open>!decision ||\<close>, \<^verbatim>\<open>data &&\<close>, the default
  parameter of \<^verbatim>\<open>resolveSshConfig\<close>) or stands inside a \<^verbatim>\<open>try\<close> that is modelled where
  it stands; a request body is what \<^verbatim>\<open>express.json()\<close> delivers, an object, an array
  or nothing, never \<^verbatim>\<open>null\<close>.
\<close>

fun js_get :: "jsval \<Rightarrow> string \<Rightarrow> jsval" where
  "js_get (JObj ms) k = (case map_of (rev ms) k of Some v \<Rightarrow> v | None \<Rightarrow> JUndefined)"
| "js_get v k = JUndefined"

text \<open>A variable of \<^verbatim>\<open>process.env\<close> is a string or absent.\<close>

fun env_val :: "string option \<Rightarrow> jsval" where
  "env_val None = JUndefined"
| "env_val (Some s) = JStr s"


text \<open>
  ToString, as applied by template literals, \<^verbatim>\<open>String(v)\<close> and property keys. An array
  is joined with commas, \<^verbatim>\<open>null\<close> and \<^verbatim>\<open>undefined\<close> elements rendering empty. A
  plain object renders as \<open>[object Object]\<close>, unless it has an own property \<^verbatim>\<open>toString\<close>:
  that property (never callable in parsed JSON) shadows the built-in method, the
  conversion finds no primitive and throws TypeError, which is the result \<open>None\<close>.
\<close>

fun js_ToString :: "jsval \<Rightarrow> string option"
  and join_elems :: "jsval list \<Rightarrow> string option" where
  "js_ToString JUndefined = Some ''undefined''"
| "js_ToString JNull = Some ''null''"
| "js_ToString (JBool b) = Some (if b then ''true'' else ''false'')"
| "js_ToString (JNum n) = Some n"
| "js_ToString (JStr s) = Some s"
| "js_ToString (JArr xs) = join_elems xs"
| "js_ToString (JObj ms) =
     (if ''toString'' \<in> fst ` set ms then None else Some ''[object Object]'')"
| "join_elems [] = Some []"
| "join_elems (x # xs) =
     (case (if x = JUndefined \<or> x = JNull then Some [] else js_ToString x) of
        None \<Rightarrow> None
      | Some s \<Rightarrow>
          (if xs = [] then Some s
           else (case join_elems xs of None \<Rightarrow> None | Some r \<Rightarrow> Some (s @ '','' @ r))))"

text \<open>An exception value: the \<^verbatim>\<open>name\<close> and \<^verbatim>\<open>message\<close> of an \<^verbatim>\<open>Error\<close> object.\<close>

record js_error =
  ename :: string
  emessage :: string

definition TypeError_primitive :: js_error where
  "TypeError_primitive =
     \<lparr> ename = ''TypeError'', emessage = ''Cannot convert object to primitive value'' \<rparr>"

text \<open>\<^verbatim>\<open>Error.prototype.toString\<close> and the handlers' \<^verbatim>\<open>error.message || String(error)\<close>.\<close>

definition error_toString :: "js_error \<Rightarrow> string" where
  "error_toString e =
     (if ename e = [] then emessage e
      else if emessage e = [] then ename e
      else ename e @ '': '' @ emessage e)"

definition error_detail :: "js_error \<Rightarrow> string" where
  "error_detail e = (if emessage e \<noteq> [] then emessage e else error_toString e)"

text \<open>\<^verbatim>\<open>s || d\<close> on strings, and on a string that may be absent.\<close>

definition str_or :: "string \<Rightarrow> string \<Rightarrow> string" where
  "str_or s d = (if s = [] then d else s)"

definition opt_or :: "string option \<Rightarrow> string \<Rightarrow> string" where
  "opt_or v d = (case v of None \<Rightarrow> d | Some s \<Rightarrow> str_or s d)"

text \<open>Decimal rendering of the integers the program prints (status and exit codes).\<close>

function show_nat :: "nat \<Rightarrow> string" where
  "show_nat n =
     (if n < 10 then [char_of (48 + n)]
      else show_nat (n div 10) @ [char_of (48 + n mod 10)])"
  by pat_completeness auto
termination
  by (relation "measure id") auto

definition show_int :: "int \<Rightarrow> string" where
  "show_int i = (if i < 0 then CHR ''-'' # show_nat (nat (- i)) else show_nat (nat i))"

section \<open>Decision parsing\<close>

text \<open>
  \<^verbatim>\<open>String.prototype.indexOf\<close>, \<^verbatim>\<open>lastIndexOf\<close> (for a one-character pattern; \<open>-1\<close>
  when absent) and \<^verbatim>\<open>slice\<close> (negative positions count from the end).
\<close>

fun indexOf :: "string \<Rightarrow> char \<Rightarrow> int" where
  "indexOf [] c = - 1"
| "indexOf (x # xs) c =
     (if x = c then 0 else (let i = indexOf xs c in if i < 0 then - 1 else i + 1))"

definition lastIndexOf :: "string \<Rightarrow> char \<Rightarrow> int" where
  "lastIndexOf s c =
     (let i = indexOf (rev s) c in if i < 0 then - 1 else int (length s) - 1 - i)"

definition slice :: "string \<Rightarrow> int \<Rightarrow> int \<Rightarrow> string" where
  "slice s a b =
     (let n = int (length s);
          from = (if a < 0 then max (n + a) 0 else min a n);
          to = (if b < 0 then max (n + b) 0 else min b n)
      in take (nat (to - from)) (drop (nat from) s))"

text \<open>
  \<^verbatim>\<open>safeJsonParse(text)\<close>. \<^verbatim>\<open>JSON.parse\<close> belongs to the JavaScript runtime and is the
  parameter \<open>parse\<close>: \<open>None\<close> when it throws. The function returns \<^verbatim>\<open>null\<close> when
  both attempts fail.
\<close>

definition safeJsonParse :: "(string \<Rightarrow> jsval option) \<Rightarrow> string \<Rightarrow> jsval" where
  "safeJsonParse parse txt =
     (case parse txt of
        Some v \<Rightarrow> v
      | None \<Rightarrow>
          (let start = indexOf txt (CHR ''{'');
               end = lastIndexOf txt (CHR ''}'')
           in if start \<ge> 0 \<and> end > start
              then (case parse (slice txt start (end + 1)) of Some v \<Rightarrow> v | None \<Rightarrow> JNull)
              else JNull))"

section \<open>Skill registry\<close>

record skill =
  title :: string
  command :: string

definition health_check_command :: string where
  \<open>health_check_command = concat
    [''\<newline>'',
     ''set +e\<newline>'',
     ''echo "=== Orbit Doctor ==="\<newline>'',
     ''if command -v orbit >/dev/null 2>&1; then\<newline>'',
     ''  orbit doctor 2>&1\<newline>'',
     ''else\<newline>'',
     ''  echo "orbit command not found"\<newline>'',
     ''fi\<newline>'',
     ''\<newline>'',
     ''echo\<newline>'',
     ''echo "=== Gateway Port (18789) ==="\<newline>'',
     ''if command -v ss >/dev/null 2>&1; then\<newline>'',
     ''  ss -lntp | grep 18789 || echo "port 18789 not currently listening"\<newline>'',
     ''else\<newline>'',
     ''  netstat -lntp 2>/dev/null | grep 18789 || true\<newline>'',
     ''fi\<newline>'',
     ''\<newline>'',
     ''echo\<newline>'',
     ''echo "=== OpenVPN Status ==="\<newline>'',
     ''if command -v systemctl >/dev/null 2>&1; then\<newline>'',
     ''  systemctl is-active openvpn 2>/dev/null || systemctl is-active openvpn-client@client 2>/dev/null || echo "openvpn service not active"\<newline>'',
     ''else\<newline>'',
     ''  echo "systemctl not found"\<newline>'',
     ''fi\<newline>'',
     ''\<newline>'',
     ''echo\<newline>'',
     ''echo "=== Repository Status ==="\<newline>'',
     ''REPO=""\<newline>'',
     ''for p in /root/openclaw /opt/openclaw /home/openclaw/openclaw; do\<newline>'',
     ''  if [ -d "$p/.git" ]; then\<newline>'',
     ''    REPO="$p"\<newline>'',
     ''    break\<newline>'',
     ''  fi\<newline>'',
     ''done\<newline>'',
     ''if [ -n "$REPO" ]; then\<newline>'',
     ''  cd "$REPO" && git status -sb\<newline>'',
     ''else\<newline>'',
     ''  echo "OpenClaw repository not found in expected paths"\<newline>'',
     ''fi\<newline>'']\<close>

definition quick_fix_command :: string where
  \<open>quick_fix_command = concat
    [''\<newline>'',
     ''set +e\<newline>'',
     ''echo "=== Orbit Auto Fix ==="\<newline>'',
     ''if command -v orbit >/dev/null 2>&1; then\<newline>'',
     ''  orbit doctor --fix 2>&1 || orbit doctor --fix --yes 2>&1 || true\<newline>'',
     ''  orbit config set gateway.mode local 2>&1 || true\<newline>'',
     ''  echo\<newline>'',
     ''  orbit doctor 2>&1 || true\<newline>'',
     ''else\<newline>'',
     ''  echo "orbit command not found"\<newline>'',
     ''fi\<newline>'']\<close>

definition vpn_status_command :: string where
  \<open>vpn_status_command = concat
    [''\<newline>'',
     ''set +e\<newline>'',
     ''echo "=== VPN Service ==="\<newline>'',
     ''if command -v systemctl >/dev/null 2>&1; then\<newline>'',
     ''  systemctl status openvpn --no-pager -l 2>&1 || systemctl status openvpn-client@client --no-pager -l 2>&1 || true\<newline>'',
     ''else\<newline>'',
     ''  echo "systemctl not found"\<newline>'',
     ''fi\<newline>'',
     ''\<newline>'',
     ''echo\<newline>'',
     ''echo "=== Routes ==="\<newline>'',
     ''ip route 2>&1 || true\<newline>'',
     ''\<newline>'',
     ''echo\<newline>'',
     ''echo "=== DNS (/etc/resolv.conf) ==="\<newline>'',
     ''cat /etc/resolv.conf 2>&1 || true\<newline>'']\<close>

definition repo_sync_command :: string where
  \<open>repo_sync_command = concat
    [''\<newline>'',
     ''set +e\<newline>'',
     ''echo "=== Repository Sync ==="\<newline>'',
     ''REPO=""\<newline>'',
     ''for p in /root/openclaw /opt/openclaw /home/openclaw/openclaw; do\<newline>'',
     ''  if [ -d "$p/.git" ]; then\<newline>'',
     ''    REPO="$p"\<newline>'',
     ''    break\<newline>'',
     ''  fi\<newline>'',
     ''done\<newline>'',
     ''if [ -z "$REPO" ]; then\<newline>'',
     ''  echo "OpenClaw repository not found in expected paths"\<newline>'',
     ''  exit 1\<newline>'',
     ''fi\<newline>'',
     ''\<newline>'',
     ''cd "$REPO"\<newline>'',
     ''git fetch --all --prune 2>&1\<newline>'',
     ''git pull --ff-only 2>&1 || git pull 2>&1\<newline>'',
     ''echo\<newline>'',
     ''git log --oneline -n 3 2>&1 || true\<newline>'']\<close>

definition service_restart_command :: string where
  \<open>service_restart_command = concat
    [''\<newline>'',
     ''set +e\<newline>'',
     ''echo "=== Restarting Orbit/OpenClaw Services ==="\<newline>'',
     ''if command -v orbit >/dev/null 2>&1; then\<newline>'',
     ''  orbit restart 2>&1 || true\<newline>'',
     ''fi\<newline>'',
     ''\<newline>'',
     ''for svc in openclaw-gateway.service openclaw.service openclaw-gateway openclaw orbit-gateway; do\<newline>'',
     ''  systemctl restart "$svc" 2>/dev/null && echo "restarted: $svc"\<newline>'',
     ''done\<newline>'',
     ''\<newline>'',
     ''echo\<newline>'',
     ''echo "=== Service Health ==="\<newline>'',
     ''for svc in openclaw-gateway.service openclaw.service openclaw-gateway openclaw orbit-gateway; do\<newline>'',
     ''  systemctl is-active "$svc" 2>/dev/null && echo "$svc: active"\<newline>'',
     ''done\<newline>'']\<close>

definition OPENCLAW_SKILLS :: "(string \<times> skill) list" where
  "OPENCLAW_SKILLS =
    [(''health-check'', \<lparr> title = ''System Health Check'', command = health_check_command \<rparr>),
     (''quick-fix'', \<lparr> title = ''Auto Fix Orbit'', command = quick_fix_command \<rparr>),
     (''vpn-status'', \<lparr> title = ''VPN Status'', command = vpn_status_command \<rparr>),
     (''repo-sync'', \<lparr> title = ''Sync GitHub Repo'', command = repo_sync_command \<rparr>),
     (''service-restart'', \<lparr> title = ''Restart Services'', command = service_restart_command \<rparr>)]"

text \<open>
  \<^verbatim>\<open>OPENCLAW_SKILLS[key]\<close> is an ordinary property read on an object literal: a key that
  is not an own property is looked up on \<^verbatim>\<open>Object.prototype\<close>, whose members (functions,
  and the prototype object itself for \<^verbatim>\<open>__proto__\<close>) are all truthy and have neither a
  \<^verbatim>\<open>title\<close> nor a \<^verbatim>\<open>command\<close>.
\<close>

definition Object_prototype_keys :: "string list" where
  "Object_prototype_keys =
     [''constructor'', ''__defineGetter__'', ''__defineSetter__'', ''hasOwnProperty'',
      ''__lookupGetter__'', ''__lookupSetter__'', ''isPrototypeOf'',
      ''propertyIsEnumerable'', ''toString'', ''valueOf'', ''__proto__'',
      ''toLocaleString'']"

datatype skill_ref = Registered skill | Inherited | Absent

definition skills_get :: "string \<Rightarrow> skill_ref" where
  "skills_get k =
     (case map_of OPENCLAW_SKILLS k of
        Some s \<Rightarrow> Registered s
      | None \<Rightarrow> if k \<in> set Object_prototype_keys then Inherited else Absent)"

text \<open>\<^verbatim>\<open>skill.title\<close> and \<^verbatim>\<open>skill.command\<close> of a truthy lookup result.\<close>

fun skill_title :: "skill_ref \<Rightarrow> jsval" where
  "skill_title (Registered s) = JStr (title s)"
| "skill_title r = JUndefined"

fun skill_command :: "skill_ref \<Rightarrow> jsval" where
  "skill_command (Registered s) = JStr (command s)"
| "skill_command r = JUndefined"

section \<open>Server configuration\<close>

text \<open>
  The module-level constants computed once from the environment
  (\<^verbatim>\<open>OPENMAX_OPENCLAW_EXECUTION\<close> is the lower-cased variable or \<open>''auto''\<close>;
  \<^verbatim>\<open>OPENMAX_ALLOW_CLIENT_SSH_CONFIG\<close> is the comparison with \<open>''true''\<close>), and the
  environment variables the handlers read on every request.
\<close>

record config =
  OPENMAX_OPENCLAW_EXECUTION :: string
  OPENMAX_ALLOW_CLIENT_SSH_CONFIG :: bool
  OPENMAX_VPS_HOST :: "string option"
  OPENMAX_VPS_USER :: "string option"
  OPENMAX_VPS_PASSWORD :: "string option"
  OPENMAX_ALLOW_KEY_AUTH :: "string option"

section \<open>Execution router\<close>

record ssh_config =
  host :: jsval
  user :: jsval
  password :: jsval

text \<open>
  \<^verbatim>\<open>resolveSshConfig(body = {})\<close>: the default parameter replaces an absent body by the
  empty object. Each field is
  \<^verbatim>\<open>(OPENMAX_ALLOW_CLIENT_SSH_CONFIG && body.f) || process.env.F || default\<close>.
\<close>

definition resolveSshConfig :: "config \<Rightarrow> jsval \<Rightarrow> ssh_config" where
  "resolveSshConfig cfg body0 =
     (let body = (if body0 = JUndefined then JObj [] else body0);
          allow = JBool (OPENMAX_ALLOW_CLIENT_SSH_CONFIG cfg)
      in \<lparr> host = js_or (js_or (js_and allow (js_get body ''host''))
                            (env_val (OPENMAX_VPS_HOST cfg))) (JStr ''168.231.78.113''),
            user = js_or (js_or (js_and allow (js_get body ''user''))
                            (env_val (OPENMAX_VPS_USER cfg))) (JStr ''root''),
            password = js_or (js_or (js_and allow (js_get body ''password''))
                                (env_val (OPENMAX_VPS_PASSWORD cfg))) (JStr '''') \<rparr>)"

text \<open>\<^verbatim>\<open>shouldRunOpenClawLocally(host)\<close>; \<^verbatim>\<open>===\<close> holds only for the very string.\<close>

definition shouldRunOpenClawLocally :: "config \<Rightarrow> jsval \<Rightarrow> bool" where
  "shouldRunOpenClawLocally cfg h =
     (if OPENMAX_OPENCLAW_EXECUTION cfg = ''local'' then True
      else if OPENMAX_OPENCLAW_EXECUTION cfg = ''ssh'' then False
      else h = JStr ''127.0.0.1'' \<or> h = JStr ''localhost'')"

section \<open>Command runner\<close>

text \<open>
  \<^verbatim>\<open>quoteForShell(value)\<close>: the string of the value between single quotes, every single
  quote inside replaced by the four characters quote, backslash, quote, quote.
\<close>

definition escape_quote :: "char \<Rightarrow> string" where
  "escape_quote c = (if c = CHR 0x27 then [CHR 0x27, CHR 0x5C, CHR 0x27, CHR 0x27] else [c])"

definition quoteForShell :: "jsval \<Rightarrow> string option" where
  "quoteForShell v =
     (case js_ToString v of
        None \<Rightarrow> None
      | Some s \<Rightarrow> Some ([CHR 0x27] @ concat (map escape_quote s) @ [CHR 0x27]))"

text \<open>\<^verbatim>\<open>buildSshArgs({host, user, remoteCommand})\<close>; the template converts user, then host.\<close>

definition buildSshArgs :: "jsval \<Rightarrow> jsval \<Rightarrow> string \<Rightarrow> jsval list option" where
  "buildSshArgs h u remoteCommand =
     (case js_ToString u of
        None \<Rightarrow> None
      | Some us \<Rightarrow>
          (case js_ToString h of
             None \<Rightarrow> None
           | Some hs \<Rightarrow>
               Some [JStr ''-o'', JStr ''StrictHostKeyChecking=no'',
                     JStr ''-o'', JStr ''UserKnownHostsFile=/dev/null'',
                     JStr ''-o'', JStr ''ConnectTimeout=15'',
                     JStr (us @ ''@'' @ hs),
                     JStr remoteCommand]))"

text \<open>
  The child process, as \<^verbatim>\<open>execFileAsync(file, args, {timeout, maxBuffer})\<close> reports it:
  it resolves with the captured output, or rejects with an error that carries a message,
  a \<^verbatim>\<open>code\<close> (the exit status, a system error name such as \<open>ENOENT\<close>, or nothing
  when the process was killed on timeout) and the output captured so far, if any.
\<close>

datatype errcode = CodeInt int | CodeStr string | CodeNone

record exec_error =
  err_message :: string
  err_code :: errcode
  err_stdout :: "string option"
  err_stderr :: "string option"

type_synonym exec_fun = "string \<Rightarrow> jsval list \<Rightarrow> exec_error + (string \<times> string)"

text \<open>The structured result; \<open>error = None\<close> is the absent field of a success result.\<close>

record exec_result =
  success :: bool
  stdout :: string
  stderr :: string
  exitCode :: int
  error :: "string option"

definition ok_result :: "string \<times> string \<Rightarrow> exec_result" where
  "ok_result p =
     \<lparr> success = True, stdout = str_or (fst p) '''', stderr = str_or (snd p) '''',
       exitCode = 0, error = None \<rparr>"

text \<open>\<^verbatim>\<open>Number.isInteger(error.code) ? error.code : 1\<close>.\<close>

fun exit_code_of :: "errcode \<Rightarrow> int" where
  "exit_code_of (CodeInt n) = n"
| "exit_code_of c = 1"

definition failed_result :: "string \<Rightarrow> exec_error \<Rightarrow> exec_result" where
  "failed_result unknown e =
     \<lparr> success = False,
       stdout = opt_or (err_stdout e) '''',
       stderr = opt_or (err_stderr e) (str_or (err_message e) unknown),
       exitCode = exit_code_of (err_code e),
       error = Some (err_message e) \<rparr>"

text \<open>\<^verbatim>\<open>runLocally({command})\<close>: the whole call is inside \<^verbatim>\<open>try\<close>.\<close>

definition runLocally :: "exec_fun \<Rightarrow> jsval \<Rightarrow> exec_result" where
  "runLocally ex cmd =
     (case ex ''bash'' [JStr ''-lc'', cmd] of
        Inr p \<Rightarrow> ok_result p
      | Inl e \<Rightarrow> failed_result ''Unknown local execution error'' e)"

text \<open>
  What \<^verbatim>\<open>runOverSsh\<close> computes before its \<^verbatim>\<open>try\<close>: the remote command, the executable
  and its arguments. \<open>None\<close> is a TypeError thrown by a string conversion.
\<close>

definition ssh_invocation :: "ssh_config \<Rightarrow> jsval \<Rightarrow> (string \<times> jsval list) option" where
  "ssh_invocation sc cmd =
     (case quoteForShell cmd of
        None \<Rightarrow> None
      | Some q \<Rightarrow>
          (case buildSshArgs (host sc) (user sc) (''bash -lc '' @ q) of
             None \<Rightarrow> None
           | Some baseSshArgs \<Rightarrow>
               Some (if truthy (password sc)
                     then (''sshpass'', [JStr ''-p'', password sc, JStr ''ssh''] @ baseSshArgs)
                     else (''ssh'', baseSshArgs))))"

definition runOverSsh :: "exec_fun \<Rightarrow> ssh_config \<Rightarrow> jsval \<Rightarrow> exec_result option" where
  "runOverSsh ex sc cmd =
     (case ssh_invocation sc cmd of
        None \<Rightarrow> None
      | Some (execCommand, execArgs) \<Rightarrow>
          Some (case ex execCommand execArgs of
                  Inr p \<Rightarrow> ok_result p
                | Inl e \<Rightarrow> failed_result ''Unknown SSH error'' e))"

section \<open>Model backend\<close>

text \<open>
  The HTTP exchange of \<^verbatim>\<open>fetchWithTimeout\<close>: \<^verbatim>\<open>fetch\<close> rejects (network failure, or the
  abort fired by the timeout), or resolves with a response whose \<^verbatim>\<open>text()\<close> and
  \<^verbatim>\<open>json()\<close> may themselves reject.
\<close>

record http_response =
  ok :: bool
  status :: nat
  statusText :: string
  text_result :: "string option"
  json_result :: "js_error + jsval"

datatype fetch_outcome = FetchRejected js_error | FetchResponded http_response

text \<open>\<^verbatim>\<open>ollamaChat\<close>: the content of the model's message, or a thrown error.\<close>

definition ollamaChat :: "fetch_outcome \<Rightarrow> js_error + string" where
  "ollamaChat f =
     (case f of
        FetchRejected e \<Rightarrow> Inl e
      | FetchResponded r \<Rightarrow>
          if \<not> ok r then
            Inl \<lparr> ename = ''Error'',
                  emessage = ''Ollama error ('' @ show_nat (status r) @ ''): ''
                             @ str_or (opt_or (text_result r) '''') (statusText r) \<rparr>
          else
            (case json_result r of
               Inl e \<Rightarrow> Inl e
             | Inr data \<Rightarrow>
                 Inr (if truthy data \<and> truthy (js_get data ''message'')
                      then (case js_get (js_get data ''message'') ''content'' of
                              JStr c \<Rightarrow> c
                            | _ \<Rightarrow> [])
                      else [])))"

section \<open>Request handlers\<close>

text \<open>
  Everything outside the process that a request touches: the two database reads
  (\<^verbatim>\<open>db.getConversation\<close> resolves with the row or \<^verbatim>\<open>undefined\<close>,
  \<^verbatim>\<open>db.getConversationMessages\<close> with the rows; either may reject), the two model
  calls (the decision and the summary), the child process, and the clock. The payload
  sent to the model (system prompt, history, model name, options) only determines what
  the backend answers, and that answer is given here; the texts interpolated into the
  prompts are strings and numbers, except the skill title and the host, whose
  conversion is modelled.
\<close>

record world =
  getConversation :: "jsval \<Rightarrow> js_error + jsval"
  getConversationMessages :: "jsval \<Rightarrow> js_error + jsval list"
  decide_fetch :: fetch_outcome
  summary_fetch :: fetch_outcome
  execFileAsync :: exec_fun
  now :: string

record http_reply =
  code :: nat
  payload :: jsval

definition json_reply :: "nat \<Rightarrow> (string \<times> jsval) list \<Rightarrow> http_reply" where
  "json_reply c ms = \<lparr> code = c, payload = JObj ms \<rparr>"

text \<open>The calls a handler makes, in order.\<close>

datatype event =
    Decide
  | RunLocally jsval
  | RunOverSsh ssh_config jsval
  | Summarize

definition agent_failed :: "js_error \<Rightarrow> http_reply" where
  "agent_failed e =
     json_reply 500 [(''error'', JStr ''Failed to process agent request''),
                     (''detail'', JStr (error_detail e))]"

definition skill_failed :: "js_error \<Rightarrow> http_reply" where
  "skill_failed e =
     json_reply 500 [(''error'', JStr ''Failed to execute OpenClaw skill''),
                     (''detail'', JStr (error_detail e))]"

definition missing_password :: "config \<Rightarrow> ssh_config \<Rightarrow> bool" where
  "missing_password cfg sc =
     (\<not> shouldRunOpenClawLocally cfg (host sc) \<and> \<not> truthy (password sc)
      \<and> \<not> truthy (env_val (OPENMAX_ALLOW_KEY_AUTH cfg)))"

definition missing_password_reply :: http_reply where
  "missing_password_reply =
     json_reply 400
       [(''error'', JStr ''Missing VPS password. Set OPENMAX_VPS_PASSWORD on the server (recommended), or configure key auth.'')]"

text \<open>The conditional that picks the runner; \<open>None\<close> when \<^verbatim>\<open>runOverSsh\<close> threw.\<close>

definition execute_skill ::
  "config \<Rightarrow> world \<Rightarrow> ssh_config \<Rightarrow> skill_ref \<Rightarrow> exec_result option \<times> event" where
  "execute_skill cfg w sc sk =
     (if shouldRunOpenClawLocally cfg (host sc)
      then (Some (runLocally (execFileAsync w) (skill_command sk)),
            RunLocally (skill_command sk))
      else (runOverSsh (execFileAsync w) sc (skill_command sk),
            RunOverSsh sc (skill_command sk)))"

definition nullable :: "string option \<Rightarrow> jsval" where
  "nullable v = (case v of None \<Rightarrow> JNull | Some s \<Rightarrow> if s = [] then JNull else JStr s)"

definition tool_report :: "ssh_config \<Rightarrow> exec_result \<Rightarrow> string \<Rightarrow> jsval" where
  "tool_report sc r t =
     JObj [(''success'', JBool (success r)),
           (''host'', host sc),
           (''user'', user sc),
           (''exitCode'', JNum (show_int (exitCode r))),
           (''stdout'', JStr (stdout r)),
           (''stderr'', JStr (stderr r)),
           (''error'', nullable (error r)),
           (''executedAt'', JStr t)]"

text \<open>The sentence used when the summary call of the agent endpoint fails.\<close>

definition summary_fallback :: "string \<Rightarrow> string \<Rightarrow> js_error \<Rightarrow> string" where
  "summary_fallback t h err =
     ''Executed '' @ t @ '' on '' @ h @ ''. (Summary unavailable: '' @ error_detail err @ '')''"

text \<open>
  \<^verbatim>\<open>POST /api/brain/agent\<close> from the point where the skill has been found: target,
  password check, execution, summary prompt (its template converts the host to a string,
  outside any inner \<^verbatim>\<open>try\<close>), summary call with its own \<^verbatim>\<open>catch\<close>, reply.
\<close>

definition agent_run_skill ::
  "config \<Rightarrow> world \<Rightarrow> jsval \<Rightarrow> string \<Rightarrow> jsval \<Rightarrow> skill_ref \<Rightarrow> http_reply \<times> event list" where
  "agent_run_skill cfg w req raw skillId sk =
     (let sshConfig = resolveSshConfig cfg req in
      if missing_password cfg sshConfig then (missing_password_reply, [])
      else
        (case execute_skill cfg w sshConfig sk of
           (None, ev) \<Rightarrow> (agent_failed TypeError_primitive, [ev])
         | (Some execution, ev) \<Rightarrow>
             (case (js_ToString (skill_title sk), js_ToString (host sshConfig)) of
                (Some t, Some h) \<Rightarrow>
                  (let summary =
                         (case ollamaChat (summary_fetch w) of
                            Inr s \<Rightarrow> s
                          | Inl err \<Rightarrow> summary_fallback t h err)
                   in (json_reply 200
                         [(''action'', JStr ''run_skill''),
                          (''skillId'', skillId),
                          (''title'', skill_title sk),
                          (''assistant'', JStr summary),
                          (''tool'', tool_report sshConfig execution (now w)),
                          (''raw'', JStr raw)],
                       [ev, Summarize]))
              | _ \<Rightarrow> (agent_failed TypeError_primitive, [ev]))))"

definition respond_reply :: "jsval \<Rightarrow> string \<Rightarrow> http_reply" where
  "respond_reply assistant raw =
     json_reply 200 [(''action'', JStr ''respond''), (''assistant'', assistant),
                     (''raw'', JStr raw)]"

text \<open>The same handler from the point where the model has answered \<open>raw\<close>.\<close>

definition agent_decided ::
  "(string \<Rightarrow> jsval option) \<Rightarrow> config \<Rightarrow> world \<Rightarrow> jsval \<Rightarrow> string
     \<Rightarrow> http_reply \<times> event list" where
  "agent_decided parse cfg w req raw =
     (let decision = safeJsonParse parse raw in
      if \<not> truthy decision \<or> \<not> truthy (js_get decision ''action'') then
        (respond_reply (js_or (JStr raw) (JStr ''I could not decide an action, but I am ready.'')) raw, [])
      else if js_get decision ''action'' = JStr ''respond'' then
        (respond_reply (js_or (js_get decision ''text'') (JStr ''OK.'')) raw, [])
      else if js_get decision ''action'' \<noteq> JStr ''run_skill'' then
        (respond_reply (js_or (JStr raw) (JStr ''OK.'')) raw, [])
      else
        (let skillId = js_get decision ''skillId'' in
         case js_ToString skillId of
           None \<Rightarrow> (agent_failed TypeError_primitive, [])
         | Some key \<Rightarrow>
             (case skills_get key of
                Absent \<Rightarrow>
                  (json_reply 400 [(''error'', JStr (''Unknown skillId: '' @ key)),
                                   (''raw'', JStr raw)], [])
              | sk \<Rightarrow> agent_run_skill cfg w req raw skillId sk)))"

text \<open>\<^verbatim>\<open>app.post('/api/brain/agent')\<close>: the reply sent and the calls made.\<close>

definition post_api_brain_agent ::
  "(string \<Rightarrow> jsval option) \<Rightarrow> config \<Rightarrow> world \<Rightarrow> jsval \<Rightarrow> http_reply \<times> event list" where
  "post_api_brain_agent parse cfg w req =
     (let sessionId = js_get (js_or req (JObj [])) ''sessionId'' in
      if \<not> truthy sessionId then
        (json_reply 400 [(''error'', JStr ''sessionId is required'')], [])
      else
        (case getConversation w sessionId of
           Inl e \<Rightarrow> (agent_failed e, [])
         | Inr conversation \<Rightarrow>
             if \<not> truthy conversation then
               (json_reply 404 [(''error'', JStr ''Conversation not found'')], [])
             else
               (case getConversationMessages w (js_get conversation ''id'') of
                  Inl e \<Rightarrow> (agent_failed e, [])
                | Inr history \<Rightarrow>
                    (case ollamaChat (decide_fetch w) of
                       Inl e \<Rightarrow> (agent_failed e, [Decide])
                     | Inr decisionRaw \<Rightarrow>
                         (case agent_decided parse cfg w req decisionRaw of
                            (r, evs) \<Rightarrow> (r, Decide # evs))))))"

text \<open>
  \<^verbatim>\<open>app.post('/api/openclaw/skills/:skillId')\<close>. The summary prompt (which converts the
  host) and the read of \<^verbatim>\<open>req.body.model\<close> are inside the inner \<^verbatim>\<open>try\<close>, whose
  \<^verbatim>\<open>catch\<close> sets the summary to \<^verbatim>\<open>null\<close>.
\<close>

definition post_api_openclaw_skills ::
  "config \<Rightarrow> world \<Rightarrow> string \<Rightarrow> jsval \<Rightarrow> http_reply \<times> event list" where
  "post_api_openclaw_skills cfg w skillId req =
     (case skills_get skillId of
        Absent \<Rightarrow> (json_reply 404 [(''error'', JStr (''Unknown skill: '' @ skillId))], [])
      | sk \<Rightarrow>
          (let sshConfig = resolveSshConfig cfg req in
           if missing_password cfg sshConfig then (missing_password_reply, [])
           else
             (case execute_skill cfg w sshConfig sk of
                (None, ev) \<Rightarrow> (skill_failed TypeError_primitive, [ev])
              | (Some execution, ev) \<Rightarrow>
                  (let called = (js_ToString (skill_title sk) \<noteq> None
                                 \<and> js_ToString (host sshConfig) \<noteq> None
                                 \<and> req \<noteq> JUndefined \<and> req \<noteq> JNull);
                       summary =
                         (if called
                          then (case ollamaChat (summary_fetch w) of
                                  Inr s \<Rightarrow> JStr s
                                | Inl err \<Rightarrow> JNull)
                          else JNull)
                   in (json_reply 200
                         [(''success'', JBool (success execution)),
                          (''skillId'', JStr skillId),
                          (''title'', skill_title sk),
                          (''host'', host sshConfig),
                          (''user'', user sshConfig),
                          (''exitCode'', JNum (show_int (exitCode execution))),
                          (''stdout'', JStr (stdout execution)),
                          (''stderr'', JStr (stderr execution)),
                          (''summary'', summary),
                          (''error'', nullable (error execution)),
                          (''executedAt'', JStr (now w))],
                       if called then [ev, Summarize] else [ev])))))"

section \<open>A reference implementation of \<^verbatim>\<open>JSON.parse\<close>\<close>

text \<open>
  The JSON grammar of ECMA-404, as \<^verbatim>\<open>JSON.parse\<close> accepts it, used to run the handlers
  on concrete model output: a scanner that reads one character at a time, and a
  stack machine over the tokens. \<open>None\<close> is the SyntaxError.
\<close>

datatype token =
    TLBrace | TRBrace | TLBracket | TRBracket | TColon | TComma
  | TString string | TNumber string | TTrue | TFalse | TNull

datatype num_state = NMinus | NZero | NInt | NDot | NFrac | NExp | NExpSign | NExpDigits

datatype lex_state =
    LStart
  | LLit string token
  | LStr string
  | LEsc string
  | LUni string "nat list"
  | LNum num_state string

definition is_digit :: "char \<Rightarrow> bool" where
  "is_digit c = (c \<in> set ''0123456789'')"

definition hex_value :: "char \<Rightarrow> nat option" where
  "hex_value c =
     (let n = (of_char c :: nat) in
      if 48 \<le> n \<and> n \<le> 57 then Some (n - 48)
      else if 97 \<le> n \<and> n \<le> 102 then Some (n - 87)
      else if 65 \<le> n \<and> n \<le> 70 then Some (n - 55)
      else None)"

text \<open>
  A code unit written \<^verbatim>\<open>\uXXXX\<close>, as characters of the model: an ASCII unit is its
  character, a larger one is spelt in two or three bytes the way UTF-8 does.
\<close>

definition encode_unit :: "nat \<Rightarrow> string" where
  "encode_unit u =
     (if u < 128 then [char_of u]
      else if u < 2048 then [char_of (192 + u div 64), char_of (128 + u mod 64)]
      else [char_of (224 + u div 4096), char_of (128 + (u div 64) mod 64),
            char_of (128 + u mod 64)])"

definition start_step :: "char \<Rightarrow> (token list \<times> lex_state) option" where
  "start_step c =
     (if c = CHR '' '' \<or> c = CHR 0x09 \<or> c = CHR 0x0A \<or> c = CHR 0x0D then Some ([], LStart)
      else if c = CHR ''{'' then Some ([TLBrace], LStart)
      else if c = CHR ''}'' then Some ([TRBrace], LStart)
      else if c = CHR ''['' then Some ([TLBracket], LStart)
      else if c = CHR '']'' then Some ([TRBracket], LStart)
      else if c = CHR '':'' then Some ([TColon], LStart)
      else if c = CHR '','' then Some ([TComma], LStart)
      else if c = CHR 0x22 then Some ([], LStr [])
      else if c = CHR ''-'' then Some ([], LNum NMinus [c])
      else if c = CHR ''0'' then Some ([], LNum NZero [c])
      else if is_digit c then Some ([], LNum NInt [c])
      else if c = CHR ''t'' then Some ([], LLit ''rue'' TTrue)
      else if c = CHR ''f'' then Some ([], LLit ''alse'' TFalse)
      else if c = CHR ''n'' then Some ([], LLit ''ull'' TNull)
      else None)"

definition is_exp :: "char \<Rightarrow> bool" where
  "is_exp c = (c = CHR ''e'' \<or> c = CHR ''E'')"

fun num_step :: "num_state \<Rightarrow> char \<Rightarrow> num_state option" where
  "num_step NMinus c =
     (if c = CHR ''0'' then Some NZero else if is_digit c then Some NInt else None)"
| "num_step NZero c =
     (if c = CHR ''.'' then Some NDot else if is_exp c then Some NExp else None)"
| "num_step NInt c =
     (if is_digit c then Some NInt else if c = CHR ''.'' then Some NDot
      else if is_exp c then Some NExp else None)"
| "num_step NDot c = (if is_digit c then Some NFrac else None)"
| "num_step NFrac c =
     (if is_digit c then Some NFrac else if is_exp c then Some NExp else None)"
| "num_step NExp c =
     (if c = CHR ''+'' \<or> c = CHR ''-'' then Some NExpSign
      else if is_digit c then Some NExpDigits else None)"
| "num_step NExpSign c = (if is_digit c then Some NExpDigits else None)"
| "num_step NExpDigits c = (if is_digit c then Some NExpDigits else None)"

fun num_final :: "num_state \<Rightarrow> bool" where
  "num_final NZero = True"
| "num_final NInt = True"
| "num_final NFrac = True"
| "num_final NExpDigits = True"
| "num_final s = False"

definition escape_char :: "char \<Rightarrow> char option" where
  "escape_char c =
     (if c = CHR 0x22 \<or> c = CHR 0x5C \<or> c = CHR ''/'' then Some c
      else if c = CHR ''b'' then Some (CHR 0x08)
      else if c = CHR ''f'' then Some (CHR 0x0C)
      else if c = CHR ''n'' then Some (CHR 0x0A)
      else if c = CHR ''r'' then Some (CHR 0x0D)
      else if c = CHR ''t'' then Some (CHR 0x09)
      else None)"

text \<open>One character of input: the tokens completed by it and the next state.\<close>

fun lex_step :: "lex_state \<Rightarrow> char \<Rightarrow> (token list \<times> lex_state) option" where
  "lex_step LStart c = start_step c"
| "lex_step (LLit [] t) c = None"
| "lex_step (LLit (x # xs) t) c =
     (if c \<noteq> x then None
      else if xs = [] then Some ([t], LStart) else Some ([], LLit xs t))"
| "lex_step (LStr acc) c =
     (if c = CHR 0x22 then Some ([TString (rev acc)], LStart)
      else if c = CHR 0x5C then Some ([], LEsc acc)
      else if (of_char c :: nat) < 32 then None
      else Some ([], LStr (c # acc)))"
| "lex_step (LEsc acc) c =
     (if c = CHR ''u'' then Some ([], LUni acc [])
      else (case escape_char c of
              Some d \<Rightarrow> Some ([], LStr (d # acc))
            | None \<Rightarrow> None))"
| "lex_step (LUni acc ds) c =
     (case hex_value c of
        None \<Rightarrow> None
      | Some d \<Rightarrow>
          (if length ds < 3 then Some ([], LUni acc (ds @ [d]))
           else Some ([], LStr (rev (encode_unit (foldl (\<lambda>a h. 16 * a + h) 0 (ds @ [d]))) @ acc))))"
| "lex_step (LNum st lx) c =
     (case num_step st c of
        Some st' \<Rightarrow> Some ([], LNum st' (c # lx))
      | None \<Rightarrow>
          (if num_final st
           then (case start_step c of
                   None \<Rightarrow> None
                 | Some (ts, s') \<Rightarrow> Some (TNumber (rev lx) # ts, s'))
           else None))"

fun lex_end :: "lex_state \<Rightarrow> token list option" where
  "lex_end LStart = Some []"
| "lex_end (LNum st lx) = (if num_final st then Some [TNumber (rev lx)] else None)"
| "lex_end s = None"

fun scan :: "lex_state \<Rightarrow> string \<Rightarrow> token list option" where
  "scan st [] = lex_end st"
| "scan st (c # cs) =
     (case lex_step st c of
        None \<Rightarrow> None
      | Some (ts, st') \<Rightarrow>
          (case scan st' cs of None \<Rightarrow> None | Some r \<Rightarrow> Some (ts @ r)))"

text \<open>
  The value of a number token, in canonical rendering. An integer literal of at most
  fifteen digits is exact and renders as itself (\<open>-0\<close> as \<open>0\<close>); for any other literal the
  rounding to a double and its rendering is the parameter \<open>canon\<close>.
\<close>

definition plain_integer :: "string \<Rightarrow> bool" where
  "plain_integer lx =
     (let ds = (case lx of c # r \<Rightarrow> if c = CHR ''-'' then r else lx | [] \<Rightarrow> lx)
      in list_all is_digit ds \<and> length ds \<le> 15)"

definition number_value :: "(string \<Rightarrow> string) \<Rightarrow> string \<Rightarrow> jsval" where
  "number_value canon lx =
     JNum (if plain_integer lx then (if lx = ''-0'' then ''0'' else lx) else canon lx)"

datatype frame =
    FArr "jsval list"
  | FObj "(string \<times> jsval) list"
  | FKey "(string \<times> jsval) list" string

datatype pmode = MValue | MArrFirst | MObjFirst | MObjKey | MColon | MAfter | MDone jsval

text \<open>A finished value goes to the innermost open container, or is the result.\<close>

fun deliver :: "jsval \<Rightarrow> frame list \<Rightarrow> (pmode \<times> frame list) option" where
  "deliver v [] = Some (MDone v, [])"
| "deliver v (FArr es # st) = Some (MAfter, FArr (v # es) # st)"
| "deliver v (FKey ms k # st) = Some (MAfter, FObj ((k, v) # ms) # st)"
| "deliver v (FObj ms # st) = None"

fun open_value ::
  "(string \<Rightarrow> string) \<Rightarrow> token \<Rightarrow> frame list \<Rightarrow> (pmode \<times> frame list) option" where
  "open_value canon TLBrace st = Some (MObjFirst, FObj [] # st)"
| "open_value canon TLBracket st = Some (MArrFirst, FArr [] # st)"
| "open_value canon (TString s) st = deliver (JStr s) st"
| "open_value canon (TNumber lx) st = deliver (number_value canon lx) st"
| "open_value canon TTrue st = deliver (JBool True) st"
| "open_value canon TFalse st = deliver (JBool False) st"
| "open_value canon TNull st = deliver JNull st"
| "open_value canon t st = None"

fun close_array :: "frame list \<Rightarrow> (pmode \<times> frame list) option" where
  "close_array (FArr es # st) = deliver (JArr (rev es)) st"
| "close_array st = None"

fun close_object :: "frame list \<Rightarrow> (pmode \<times> frame list) option" where
  "close_object (FObj ms # st) = deliver (JObj (rev ms)) st"
| "close_object st = None"

fun read_key :: "token \<Rightarrow> frame list \<Rightarrow> (pmode \<times> frame list) option" where
  "read_key (TString k) (FObj ms # st) = Some (MColon, FKey ms k # st)"
| "read_key t st = None"

fun after_value :: "token \<Rightarrow> frame list \<Rightarrow> (pmode \<times> frame list) option" where
  "after_value t (FArr es # st) =
     (if t = TComma then Some (MValue, FArr es # st)
      else if t = TRBracket then close_array (FArr es # st) else None)"
| "after_value t (FObj ms # st) =
     (if t = TComma then Some (MObjKey, FObj ms # st)
      else if t = TRBrace then close_object (FObj ms # st) else None)"
| "after_value t st = None"

fun pstep ::
  "(string \<Rightarrow> string) \<Rightarrow> pmode \<Rightarrow> frame list \<Rightarrow> token \<Rightarrow> (pmode \<times> frame list) option" where
  "pstep canon MValue st t = open_value canon t st"
| "pstep canon MArrFirst st t =
     (if t = TRBracket then close_array st else open_value canon t st)"
| "pstep canon MObjFirst st t = (if t = TRBrace then close_object st else read_key t st)"
| "pstep canon MObjKey st t = read_key t st"
| "pstep canon MColon st t = (if t = TColon then Some (MValue, st) else None)"
| "pstep canon MAfter st t = after_value t st"
| "pstep canon (MDone v) st t = None"

fun pfold ::
  "(string \<Rightarrow> string) \<Rightarrow> pmode \<Rightarrow> frame list \<Rightarrow> token list \<Rightarrow> jsval option" where
  "pfold canon m st [] = (case m of MDone v \<Rightarrow> Some v | _ \<Rightarrow> None)"
| "pfold canon m st (t # ts) =
     (case pstep canon m st t of
        None \<Rightarrow> None
      | Some (m', st') \<Rightarrow> pfold canon m' st' ts)"

definition JSON_parse :: "(string \<Rightarrow> string) \<Rightarrow> string \<Rightarrow> jsval option" where
  "JSON_parse canon txt =
     (case scan LStart txt of
        None \<Rightarrow> None
      | Some ts \<Rightarrow> pfold canon MValue [] ts)"

section \<open>The remote shell's view of a command line\<close>

text \<open>
  How a POSIX shell splits a command line into words and removes quoting (XCU 2.2 and
  2.6.5), for lines without expansions or operators: between single quotes every
  character is literal; outside, a backslash makes the next character literal (and
  disappears together with a following newline), blanks separate words, and a line
  with any other unquoted special character is outside this fragment (\<open>None\<close>), as is
  an unterminated quote. The arguments are: inside quotes or not, the word in
  progress if any, the rest of the line.
\<close>

definition sh_special :: "char \<Rightarrow> bool" where
  \<open>sh_special c = (c \<in> set ''|&;<>()$`"*?[#~=%'' \<or> c = CHR 0x0A)\<close>

definition sh_add :: "string option \<Rightarrow> char \<Rightarrow> string option" where
  "sh_add cur c = Some ((case cur of None \<Rightarrow> [] | Some w \<Rightarrow> w) @ [c])"

fun sh_words :: "bool \<Rightarrow> string option \<Rightarrow> string \<Rightarrow> string list option" where
  "sh_words True cur [] = None"
| "sh_words False cur [] = Some (case cur of None \<Rightarrow> [] | Some w \<Rightarrow> [w])"
| "sh_words True cur (c # cs) =
     (if c = CHR 0x27 then sh_words False cur cs else sh_words True (sh_add cur c) cs)"
| "sh_words False cur (c # cs) =
     (if c = CHR 0x27 then sh_words True (Some (case cur of None \<Rightarrow> [] | Some w \<Rightarrow> w)) cs
      else if c = CHR 0x5C then
        (case cs of
           [] \<Rightarrow> None
         | d # ds \<Rightarrow>
             if d = CHR 0x0A then sh_words False cur ds
             else sh_words False (sh_add cur d) ds)
      else if c = CHR '' '' \<or> c = CHR 0x09 then
        (case cur of
           None \<Rightarrow> sh_words False None cs
         | Some w \<Rightarrow> (case sh_words False None cs of None \<Rightarrow> None | Some ws \<Rightarrow> Some (w # ws)))
      else if sh_special c then None
      else sh_words False (sh_add cur c) cs)"

definition sh_parse :: "string \<Rightarrow> string list option" where
  "sh_parse line = sh_words False None line"

section \<open>Concrete deployments and runs\<close>

text \<open>A deployment with client overrides switched off and a password configured.\<close>

definition locked_config :: config where
  "locked_config =
     \<lparr> OPENMAX_OPENCLAW_EXECUTION = ''auto'', OPENMAX_ALLOW_CLIENT_SSH_CONFIG = False,
       OPENMAX_VPS_HOST = Some ''10.0.0.5'', OPENMAX_VPS_USER = None,
       OPENMAX_VPS_PASSWORD = Some ''s3cret'', OPENMAX_ALLOW_KEY_AUTH = None \<rparr>"

text \<open>A deployment that runs skills on the machine of the server itself.\<close>

definition local_config :: config where
  "local_config =
     \<lparr> OPENMAX_OPENCLAW_EXECUTION = ''local'', OPENMAX_ALLOW_CLIENT_SSH_CONFIG = False,
       OPENMAX_VPS_HOST = None, OPENMAX_VPS_USER = None,
       OPENMAX_VPS_PASSWORD = None, OPENMAX_ALLOW_KEY_AUTH = None \<rparr>"

text \<open>A database that knows every session and holds no messages.\<close>

definition known_session :: "jsval \<Rightarrow> js_error + jsval" where
  "known_session sessionId = Inr (JObj [(''id'', JNum ''7''), (''session_id'', sessionId)])"

definition no_messages :: "jsval \<Rightarrow> js_error + jsval list" where
  "no_messages conversationId = Inr []"

text \<open>A backend that cannot be reached, and one that answers with the given content.\<close>

definition backend_down :: fetch_outcome where
  "backend_down = FetchRejected \<lparr> ename = ''TypeError'', emessage = ''fetch failed'' \<rparr>"

definition backend_says :: "string \<Rightarrow> fetch_outcome" where
  "backend_says c =
     FetchResponded
       \<lparr> ok = True, status = 200, statusText = ''OK'', text_result = None,
         json_result = Inr (JObj [(''message'', JObj [(''role'', JStr ''assistant''),
                                                      (''content'', JStr c)])]) \<rparr>"

text \<open>A child process that exits with status 0, and one that exits with status 2.\<close>

definition exec_succeeds :: exec_fun where
  "exec_succeeds file args = Inr (''all good'', '''')"

definition exec_fails :: exec_fun where
  "exec_fails file args =
     Inl \<lparr> err_message = ''Command failed: bash'', err_code = CodeInt 2,
           err_stdout = Some '''', err_stderr = Some ''boom'' \<rparr>"

text \<open>A child process that is killed on timeout: no exit status, no output.\<close>

definition exec_times_out :: exec_fun where
  "exec_times_out file args =
     Inl \<lparr> err_message = ''Command failed: bash'', err_code = CodeNone,
           err_stdout = Some '''', err_stderr = Some '''' \<rparr>"

definition make_world :: "fetch_outcome \<Rightarrow> fetch_outcome \<Rightarrow> exec_fun \<Rightarrow> world" where
  "make_world d s ex =
     \<lparr> getConversation = known_session, getConversationMessages = no_messages,
       decide_fetch = d, summary_fetch = s, execFileAsync = ex,
       now = ''2026-01-01T00:00:00.000Z'' \<rparr>"

text \<open>
  The request the client sends, and the parser for texts whose number literals, if any,
  are plain integers (the rendering of other literals is then never asked for).
\<close>

definition session_request :: jsval where
  "session_request = JObj [(''sessionId'', JStr ''s-1'')]"

definition reference_parse :: "string \<Rightarrow> jsval option" where
  "reference_parse = JSON_parse (\<lambda>lx. lx)"

text \<open>Model outputs: the recovery scenario, and decisions to run a skill.\<close>

definition chatty_output :: string where
  \<open>chatty_output =
     ''I'' @ [CHR 0x27] @ ''ll just chat.'' @ [CHR 0x0A]
     @ ''{"action":"respond","text":"Hi"}'' @ [CHR 0x0A] @ ''thanks''\<close>

definition constructor_decision :: string where
  \<open>constructor_decision = ''{"action":"run_skill","skillId":"constructor"}''\<close>

definition vpn_decision :: string where
  \<open>vpn_decision = ''{"action":"run_skill","skillId":"vpn-status","reason":"asked"}''\<close>

text \<open>A remote target, and a command with a single quote in it.\<close>

definition locked_target :: ssh_config where
  "locked_target = \<lparr> host = JStr ''10.0.0.5'', user = JStr ''root'', password = JStr ''s3cret'' \<rparr>"

definition quote_sample :: string where
  "quote_sample = ''echo it'' @ [CHR 0x27] @ ''s''"


text \<open>A deployment that always goes through ssh.\<close>

definition remote_config :: config where
  "remote_config =
     \<lparr> OPENMAX_OPENCLAW_EXECUTION = ''ssh'', OPENMAX_ALLOW_CLIENT_SSH_CONFIG = False,
       OPENMAX_VPS_HOST = Some ''127.0.0.1'', OPENMAX_VPS_USER = None,
       OPENMAX_VPS_PASSWORD = Some ''s3cret'', OPENMAX_ALLOW_KEY_AUTH = None \<rparr>"

text \<open>
  Model outputs with more than one brace: a closing brace inside the text of the
  decision, and a stray opening brace before the decision.
\<close>

definition nested_output :: string where
  \<open>nested_output = ''note {"action":"respond","text":"a}b"} end''\<close>

definition two_open_output :: string where
  \<open>two_open_output = ''{ oops {"action":"respond","text":"Hi"}''\<close>

text \<open>A backend that answers with an error status, and one whose body is not JSON.\<close>

definition backend_unavailable :: fetch_outcome where
  "backend_unavailable =
     FetchResponded
       \<lparr> ok = False, status = 503, statusText = ''Service Unavailable'',
         text_result = Some ''overloaded'',
         json_result = Inl \<lparr> ename = ''SyntaxError'', emessage = ''Unexpected token o'' \<rparr> \<rparr>"

definition backend_garbled :: fetch_outcome where
  "backend_garbled =
     FetchResponded
       \<lparr> ok = True, status = 200, statusText = ''OK'', text_result = Some ''<html>'',
         json_result = Inl \<lparr> ename = ''SyntaxError'', emessage = ''Unexpected token <'' \<rparr> \<rparr>"


section \<open>Notions used in the statements\<close>

text \<open>What the server alone contributes to a field of the target.\<close>

definition server_field :: "string option \<Rightarrow> string \<Rightarrow> jsval" where
  "server_field v d = (case v of None \<Rightarrow> JStr d | Some s \<Rightarrow> if s = [] then JStr d else JStr s)"

text \<open>The \<^verbatim>\<open>action\<close> and \<^verbatim>\<open>error\<close> fields of a reply's JSON body.\<close>

definition action_of :: "http_reply \<Rightarrow> jsval" where
  "action_of r = js_get (payload r) ''action''"



text \<open>
  Loopback as the specification's glossary words it, a host address referring to the
  machine the governor itself runs on: the name \<open>localhost\<close> in any letter case, an
  IPv4 address of the block 127.0.0.0/8 in dotted form, and the IPv6 address \<open>::1\<close>
  (the design notes name IPv6 loopback and aliases of localhost among them).
\<close>

definition lower_ascii :: "char \<Rightarrow> char" where
  "lower_ascii c =
     (if c \<in> set ''ABCDEFGHIJKLMNOPQRSTUVWXYZ''
      then char_of ((of_char c :: nat) + 32) else c)"

fun split_dots :: "string \<Rightarrow> string list" where
  "split_dots [] = [[]]"
| "split_dots (c # cs) =
     (if c = CHR ''.'' then [] # split_dots cs
      else (case split_dots cs of w # ws \<Rightarrow> (c # w) # ws | [] \<Rightarrow> [[c]]))"

definition octet_value :: "string \<Rightarrow> nat" where
  "octet_value s = foldl (\<lambda>a c. 10 * a + ((of_char c :: nat) - 48)) 0 s"

definition is_octet :: "string \<Rightarrow> bool" where
  "is_octet s = (s \<noteq> [] \<and> length s \<le> 3 \<and> list_all is_digit s \<and> octet_value s \<le> 255)"

definition spec_loopback :: "string \<Rightarrow> bool" where
  "spec_loopback h =
     (map lower_ascii h = ''localhost'' \<or> h = ''::1''
      \<or> (case split_dots h of
            [a, b, c, d] \<Rightarrow> a = ''127'' \<and> is_octet b \<and> is_octet c \<and> is_octet d
          | _ \<Rightarrow> False))"

section \<open>Properties of the execution router\<close>

lemma server_only_field:
  "js_or (js_or (js_and (JBool False) x) (env_val v)) (JStr d) = server_field v d"
  by (cases v) (simp_all add: js_or_def js_and_def server_field_def)

text \<open>
  C1. With \<^verbatim>\<open>OPENMAX_ALLOW_CLIENT_SSH_CONFIG\<close> disabled, the resolved host, user and
  password are the same for any two request bodies, whatever host, user or password
  fields they carry: the triple is the one built from the server's environment and the
  built-in defaults.
\<close>

theorem resolveSshConfig_server_only:
  assumes "\<not> OPENMAX_ALLOW_CLIENT_SSH_CONFIG cfg"
  shows "resolveSshConfig cfg body1 = resolveSshConfig cfg body2
       \<and> resolveSshConfig cfg body1 =
           \<lparr> host = server_field (OPENMAX_VPS_HOST cfg) ''168.231.78.113'',
             user = server_field (OPENMAX_VPS_USER cfg) ''root'',
             password = server_field (OPENMAX_VPS_PASSWORD cfg) '''' \<rparr>"
  using assms by (simp add: resolveSshConfig_def Let_def server_only_field)

theorem resolveSshConfig_server_only_witness:
  "\<not> OPENMAX_ALLOW_CLIENT_SSH_CONFIG locked_config
 \<and> resolveSshConfig locked_config
       (JObj [(''host'', JStr ''evil.example''), (''user'', JStr ''mallory''),
              (''password'', JStr ''x'')])
     = resolveSshConfig locked_config (JObj [(''sessionId'', JStr ''abc'')])
 \<and> resolveSshConfig locked_config
       (JObj [(''host'', JStr ''evil.example''), (''user'', JStr ''mallory''),
              (''password'', JStr ''x'')])
     = \<lparr> host = JStr ''10.0.0.5'', user = JStr ''root'', password = JStr ''s3cret'' \<rparr>"
proof -
  have off: "\<not> OPENMAX_ALLOW_CLIENT_SSH_CONFIG locked_config"
    by (simp add: locked_config_def)
  have srv:
    "server_field (OPENMAX_VPS_HOST locked_config) ''168.231.78.113'' = JStr ''10.0.0.5''"
    "server_field (OPENMAX_VPS_USER locked_config) ''root'' = JStr ''root''"
    "server_field (OPENMAX_VPS_PASSWORD locked_config) [] = JStr ''s3cret''"
    by (simp_all add: locked_config_def server_field_def)
  show ?thesis
    using off resolveSshConfig_server_only [OF off] unfolding srv by blast
qed

lemma code_test_is_loopback:
  "spec_loopback ''127.0.0.1'' \<and> spec_loopback ''localhost''"
  by (simp add: spec_loopback_def lower_ascii_def is_octet_def is_digit_def octet_value_def)

lemma documentation_address_not_loopback: "\<not> spec_loopback ''203.0.113.9''"
  by (simp add: spec_loopback_def lower_ascii_def is_octet_def is_digit_def octet_value_def)

text \<open>
  C5, as the code has it. \<^verbatim>\<open>shouldRunOpenClawLocally\<close> is a function of the configured
  mode and the host only: in mode \<open>local\<close> it is true for every host, in mode \<open>ssh\<close>
  false for every host, and in mode \<open>auto\<close> it is true exactly when the host is the
  string \<open>127.0.0.1\<close> or the string \<open>localhost\<close>. So in mode \<open>auto\<close> only loopback hosts
  run locally (true for \<open>127.0.0.1\<close>, false for \<open>203.0.113.9\<close>, which is no loopback
  host), but not every loopback host does.
\<close>

theorem shouldRunOpenClawLocally_modes:
  "(OPENMAX_OPENCLAW_EXECUTION cfg = ''local'' \<longrightarrow> shouldRunOpenClawLocally cfg h)
 \<and> (OPENMAX_OPENCLAW_EXECUTION cfg = ''ssh'' \<longrightarrow> \<not> shouldRunOpenClawLocally cfg h)
 \<and> (OPENMAX_OPENCLAW_EXECUTION cfg = ''auto'' \<longrightarrow>
       shouldRunOpenClawLocally cfg h = (h = JStr ''127.0.0.1'' \<or> h = JStr ''localhost'')
     \<and> shouldRunOpenClawLocally cfg (JStr ''127.0.0.1'')
     \<and> \<not> shouldRunOpenClawLocally cfg (JStr ''203.0.113.9'')
     \<and> (shouldRunOpenClawLocally cfg (JStr s) \<longrightarrow> spec_loopback s))
 \<and> \<not> spec_loopback ''203.0.113.9''
 \<and> (OPENMAX_OPENCLAW_EXECUTION cfg = OPENMAX_OPENCLAW_EXECUTION cfg' \<longrightarrow>
       shouldRunOpenClawLocally cfg h = shouldRunOpenClawLocally cfg' h)"
proof (intro conjI impI)
  assume auto: "OPENMAX_OPENCLAW_EXECUTION cfg = ''auto''"
  then show "shouldRunOpenClawLocally cfg h = (h = JStr ''127.0.0.1'' \<or> h = JStr ''localhost'')"
    and "shouldRunOpenClawLocally cfg (JStr ''127.0.0.1'')"
    and "\<not> shouldRunOpenClawLocally cfg (JStr ''203.0.113.9'')"
    by (simp_all add: shouldRunOpenClawLocally_def)
  assume "shouldRunOpenClawLocally cfg (JStr s)"
  with auto have "s = ''127.0.0.1'' \<or> s = ''localhost''"
    by (simp add: shouldRunOpenClawLocally_def)
  then show "spec_loopback s"
    using code_test_is_loopback by blast
next
  show "\<not> spec_loopback ''203.0.113.9''"
    by (rule documentation_address_not_loopback)
qed (simp_all add: shouldRunOpenClawLocally_def)

theorem shouldRunOpenClawLocally_modes_witness:
  "shouldRunOpenClawLocally local_config (JStr ''203.0.113.9'')
 \<and> \<not> shouldRunOpenClawLocally remote_config (JStr ''127.0.0.1'')
 \<and> shouldRunOpenClawLocally locked_config (JStr ''127.0.0.1'')
 \<and> shouldRunOpenClawLocally locked_config (JStr ''localhost'')
 \<and> spec_loopback ''localhost''
 \<and> \<not> shouldRunOpenClawLocally locked_config (JStr ''203.0.113.9'')"
proof -
  have l: "OPENMAX_OPENCLAW_EXECUTION local_config = ''local''"
    by (simp add: local_config_def)
  have r: "OPENMAX_OPENCLAW_EXECUTION remote_config = ''ssh''"
    by (simp add: remote_config_def)
  have a: "OPENMAX_OPENCLAW_EXECUTION locked_config = ''auto''"
    by (simp add: locked_config_def)
  show ?thesis
    using shouldRunOpenClawLocally_modes
        [of local_config "JStr ''203.0.113.9''" "''localhost''" local_config]
      shouldRunOpenClawLocally_modes
        [of remote_config "JStr ''127.0.0.1''" "''localhost''" remote_config]
      shouldRunOpenClawLocally_modes
        [of locked_config "JStr ''localhost''" "''localhost''" locked_config]
      l r a
    by simp
qed

text \<open>
  C5 as stated fails: in mode \<open>auto\<close> the loopback hosts \<open>::1\<close>, \<open>127.0.0.2\<close> and
  \<open>LOCALHOST\<close> do not run locally.
\<close>

theorem loopback_counterexample:
  "OPENMAX_OPENCLAW_EXECUTION locked_config = ''auto''
 \<and> spec_loopback ''::1''
 \<and> \<not> shouldRunOpenClawLocally locked_config (JStr ''::1'')
 \<and> spec_loopback ''127.0.0.2''
 \<and> \<not> shouldRunOpenClawLocally locked_config (JStr ''127.0.0.2'')
 \<and> spec_loopback ''LOCALHOST''
 \<and> \<not> shouldRunOpenClawLocally locked_config (JStr ''LOCALHOST'')"
proof -
  have up: "spec_loopback ''LOCALHOST''"
    by code_simp
  have others: "spec_loopback ''::1''" "spec_loopback ''127.0.0.2''"
    by (simp_all add: spec_loopback_def is_octet_def is_digit_def octet_value_def)
  show ?thesis
    using up others by (simp add: shouldRunOpenClawLocally_def locked_config_def)
qed

section \<open>Properties of the command runner\<close>

lemma sh_words_quoted:
  "sh_words True (Some w) (concat (map escape_quote s) @ CHR 0x27 # rest)
     = sh_words False (Some (w @ s)) rest"
proof (induction s arbitrary: w)
  case Nil
  show ?case by simp
next
  case (Cons c s)
  show ?case
  proof (cases "c = CHR 0x27")
    case True
    then show ?thesis
      using Cons.IH [of "w @ [c]"] by (simp add: escape_quote_def sh_add_def)
  next
    case False
    then show ?thesis
      using Cons.IH [of "w @ [c]"] by (simp add: escape_quote_def sh_add_def)
  qed
qed

lemma sh_parse_quoted:
  "sh_parse (CHR 0x27 # concat (map escape_quote s) @ [CHR 0x27]) = Some [s]"
  using sh_words_quoted [of "[]" s "[]"] by (simp add: sh_parse_def)

lemma sh_parse_bash_lc:
  "sh_parse (''bash -lc '' @ CHR 0x27 # concat (map escape_quote s) @ [CHR 0x27])
     = Some [''bash'', ''-lc'', s]"
  using sh_words_quoted [of "[]" s "[]"]
  by (simp add: sh_parse_def sh_add_def sh_special_def)

lemma ssh_invocation_last:
  assumes "js_ToString cmd = Some s" and "ssh_invocation sc cmd = Some (prog, args)"
  shows "last args = JStr (''bash -lc '' @ CHR 0x27 # concat (map escape_quote s) @ [CHR 0x27])"
  using assms
  by (auto simp: ssh_invocation_def quoteForShell_def buildSshArgs_def
           split: option.splits if_splits)

text \<open>
  C9. For every string \<open>s\<close>, \<^verbatim>\<open>quoteForShell(s)\<close> is \<open>s\<close> between single quotes with
  every single quote inside replaced by quote, backslash, quote, quote; a POSIX shell
  reads the quoted form back as the one word \<open>s\<close>. The remote command that
  \<^verbatim>\<open>runOverSsh\<close> hands to ssh is its last argument, it is \<open>bash -lc\<close> followed by
  \<^verbatim>\<open>quoteForShell(command)\<close> whatever the host, user and password are, and the remote
  shell reads it as the three words \<open>bash\<close>, \<open>-lc\<close> and the command.
\<close>

theorem quoteForShell_round_trip:
  "quoteForShell (JStr s) = Some (CHR 0x27 # concat (map escape_quote s) @ [CHR 0x27])
 \<and> (\<forall>c. escape_quote c =
            (if c = CHR 0x27 then [CHR 0x27, CHR 0x5C, CHR 0x27, CHR 0x27] else [c]))
 \<and> sh_parse (CHR 0x27 # concat (map escape_quote s) @ [CHR 0x27]) = Some [s]
 \<and> (ssh_invocation sc (JStr s) = Some (prog, args) \<longrightarrow>
       last args = JStr (''bash -lc '' @ CHR 0x27 # concat (map escape_quote s) @ [CHR 0x27]))
 \<and> sh_parse (''bash -lc '' @ CHR 0x27 # concat (map escape_quote s) @ [CHR 0x27])
       = Some [''bash'', ''-lc'', s]"
proof (intro conjI allI impI)
  show "quoteForShell (JStr s) = Some (CHR 0x27 # concat (map escape_quote s) @ [CHR 0x27])"
    by (simp add: quoteForShell_def)
  show "escape_quote c = (if c = CHR 0x27 then [CHR 0x27, CHR 0x5C, CHR 0x27, CHR 0x27] else [c])"
    for c by (simp add: escape_quote_def)
  show "sh_parse (CHR 0x27 # concat (map escape_quote s) @ [CHR 0x27]) = Some [s]"
    by (rule sh_parse_quoted)
  show "last args = JStr (''bash -lc '' @ CHR 0x27 # concat (map escape_quote s) @ [CHR 0x27])"
    if "ssh_invocation sc (JStr s) = Some (prog, args)"
    using that by (intro ssh_invocation_last [of "JStr s" s sc prog args]) simp_all
  show "sh_parse (''bash -lc '' @ CHR 0x27 # concat (map escape_quote s) @ [CHR 0x27])
          = Some [''bash'', ''-lc'', s]"
    by (rule sh_parse_bash_lc)
qed

theorem quoteForShell_round_trip_witness:
  "ssh_invocation locked_target (JStr quote_sample)
     = Some (''sshpass'',
             [JStr ''-p'', JStr ''s3cret'', JStr ''ssh'',
              JStr ''-o'', JStr ''StrictHostKeyChecking=no'',
              JStr ''-o'', JStr ''UserKnownHostsFile=/dev/null'',
              JStr ''-o'', JStr ''ConnectTimeout=15'',
              JStr ''root@10.0.0.5'',
              JStr (''bash -lc '' @ CHR 0x27 # concat (map escape_quote quote_sample) @ [CHR 0x27])])
 \<and> concat (map escape_quote quote_sample)
     = ''echo it'' @ [CHR 0x27, CHR 0x5C, CHR 0x27, CHR 0x27] @ ''s''
 \<and> sh_parse (''bash -lc '' @ CHR 0x27 # concat (map escape_quote quote_sample) @ [CHR 0x27])
     = Some [''bash'', ''-lc'', quote_sample]"
proof (intro conjI)
  show "ssh_invocation locked_target (JStr quote_sample)
     = Some (''sshpass'',
             [JStr ''-p'', JStr ''s3cret'', JStr ''ssh'',
              JStr ''-o'', JStr ''StrictHostKeyChecking=no'',
              JStr ''-o'', JStr ''UserKnownHostsFile=/dev/null'',
              JStr ''-o'', JStr ''ConnectTimeout=15'',
              JStr ''root@10.0.0.5'',
              JStr (''bash -lc '' @ CHR 0x27 # concat (map escape_quote quote_sample) @ [CHR 0x27])])"
    by (simp add: ssh_invocation_def quoteForShell_def buildSshArgs_def locked_target_def)
  show "concat (map escape_quote quote_sample)
     = ''echo it'' @ [CHR 0x27, CHR 0x5C, CHR 0x27, CHR 0x27] @ ''s''"
    by (simp add: quote_sample_def escape_quote_def)
  show "sh_parse (''bash -lc '' @ CHR 0x27 # concat (map escape_quote quote_sample) @ [CHR 0x27])
     = Some [''bash'', ''-lc'', quote_sample]"
    using quoteForShell_round_trip [of quote_sample] by blast
qed

lemma runOverSsh_throws_iff:
  "runOverSsh ex sc cmd = None \<longleftrightarrow> ssh_invocation sc cmd = None"
  by (simp add: runOverSsh_def split: option.splits prod.splits)

lemma ssh_invocation_strings:
  assumes "js_ToString h = Some hs" and "js_ToString u = Some us" and "js_ToString cmd = Some cs"
  shows "ssh_invocation \<lparr> host = h, user = u, password = p \<rparr> cmd \<noteq> None"
  using assms by (simp add: ssh_invocation_def quoteForShell_def buildSshArgs_def)

text \<open>
  C6. When the child process of a runner fails (it cannot be spawned, the transport or
  the authentication fails, it exits with a non-zero status, or it is killed on
  timeout), the runner returns a result with \<open>success = false\<close>, the error field set to
  the failure's message, and as exit code the failure's code when that is an integer
  and 1 otherwise. \<^verbatim>\<open>runOverSsh\<close> throws only when a string conversion fails before
  anything is executed, never because of the child process, and not at all when host,
  user and command are convertible (strings always are).
\<close>

theorem runner_failure_structured:
  "(ex ''bash'' [JStr ''-lc'', cmd] = Inl e \<longrightarrow>
       \<not> success (runLocally ex cmd)
     \<and> error (runLocally ex cmd) = Some (err_message e)
     \<and> exitCode (runLocally ex cmd)
         = (case err_code e of CodeInt n \<Rightarrow> n | CodeStr s \<Rightarrow> 1 | CodeNone \<Rightarrow> 1))
 \<and> (ssh_invocation sc cmd = Some (prog, args) \<and> ex prog args = Inl e \<longrightarrow>
       (\<exists>r. runOverSsh ex sc cmd = Some r
          \<and> \<not> success r
          \<and> error r = Some (err_message e)
          \<and> exitCode r = (case err_code e of CodeInt n \<Rightarrow> n | CodeStr s \<Rightarrow> 1 | CodeNone \<Rightarrow> 1)))
 \<and> (runOverSsh ex sc cmd = None \<longleftrightarrow> ssh_invocation sc cmd = None)
 \<and> (js_ToString h = Some hs \<and> js_ToString u = Some us \<and> js_ToString cmd = Some cs \<longrightarrow>
       runOverSsh ex \<lparr> host = h, user = u, password = p \<rparr> cmd \<noteq> None)"
proof (intro conjI impI)
  assume "ex ''bash'' [JStr ''-lc'', cmd] = Inl e"
  then have "runLocally ex cmd = failed_result ''Unknown local execution error'' e"
    by (simp add: runLocally_def)
  then show "\<not> success (runLocally ex cmd)"
    and "error (runLocally ex cmd) = Some (err_message e)"
    and "exitCode (runLocally ex cmd)
         = (case err_code e of CodeInt n \<Rightarrow> n | CodeStr s \<Rightarrow> 1 | CodeNone \<Rightarrow> 1)"
    by (simp_all add: failed_result_def split: errcode.splits)
next
  assume "ssh_invocation sc cmd = Some (prog, args) \<and> ex prog args = Inl e"
  then have "runOverSsh ex sc cmd = Some (failed_result ''Unknown SSH error'' e)"
    by (simp add: runOverSsh_def)
  then show "\<exists>r. runOverSsh ex sc cmd = Some r
          \<and> \<not> success r
          \<and> error r = Some (err_message e)
          \<and> exitCode r = (case err_code e of CodeInt n \<Rightarrow> n | CodeStr s \<Rightarrow> 1 | CodeNone \<Rightarrow> 1)"
    by (simp add: failed_result_def split: errcode.splits)
next
  show "runOverSsh ex sc cmd = None \<longleftrightarrow> ssh_invocation sc cmd = None"
    by (rule runOverSsh_throws_iff)
next
  assume "js_ToString h = Some hs \<and> js_ToString u = Some us \<and> js_ToString cmd = Some cs"
  then show "runOverSsh ex \<lparr> host = h, user = u, password = p \<rparr> cmd \<noteq> None"
    using ssh_invocation_strings [of h hs u us cmd cs p]
    by (simp add: runOverSsh_throws_iff)
qed

theorem runner_failure_structured_witness:
  "exec_times_out ''bash'' [JStr ''-lc'', JStr ''sleep 600''] =
     Inl \<lparr> err_message = ''Command failed: bash'', err_code = CodeNone,
           err_stdout = Some [], err_stderr = Some [] \<rparr>
 \<and> \<not> success (runLocally exec_times_out (JStr ''sleep 600''))
 \<and> error (runLocally exec_times_out (JStr ''sleep 600'')) = Some ''Command failed: bash''
 \<and> exitCode (runLocally exec_times_out (JStr ''sleep 600'')) = 1
 \<and> runOverSsh exec_fails locked_target (JStr quote_sample)
     = Some \<lparr> success = False, stdout = [], stderr = ''boom'', exitCode = 2,
              error = Some ''Command failed: bash'' \<rparr>
 \<and> runOverSsh exec_fails locked_target (JStr quote_sample) \<noteq> None"
proof -
  have f: "exec_times_out ''bash'' [JStr ''-lc'', JStr ''sleep 600''] =
     Inl \<lparr> err_message = ''Command failed: bash'', err_code = CodeNone,
           err_stdout = Some [], err_stderr = Some [] \<rparr>"
    by (simp add: exec_times_out_def)
  have s: "js_ToString (JStr ''10.0.0.5'') = Some ''10.0.0.5''
         \<and> js_ToString (JStr ''root'') = Some ''root''
         \<and> js_ToString (JStr quote_sample) = Some quote_sample"
    by simp
  have r: "runOverSsh exec_fails locked_target (JStr quote_sample)
     = Some \<lparr> success = False, stdout = [], stderr = ''boom'', exitCode = 2,
              error = Some ''Command failed: bash'' \<rparr>"
    by (simp add: runOverSsh_def ssh_invocation_def quoteForShell_def buildSshArgs_def
        locked_target_def exec_fails_def failed_result_def opt_or_def str_or_def)
  show ?thesis
    using f s r
      runner_failure_structured
        [where ex = exec_times_out and cmd = "JStr ''sleep 600''"
           and e = "\<lparr> err_message = ''Command failed: bash'', err_code = CodeNone,
                      err_stdout = Some [], err_stderr = Some [] \<rparr>"]
      runner_failure_structured
        [where ex = exec_fails and cmd = "JStr quote_sample" and h = "JStr ''10.0.0.5''"
           and u = "JStr ''root''" and p = "JStr ''s3cret''" and hs = "''10.0.0.5''"
           and us = "''root''" and cs = quote_sample]
    by (simp add: locked_target_def)
qed

lemma ok_result_invariant:
  "success (ok_result p) \<and> exitCode (ok_result p) = 0 \<and> error (ok_result p) = None
 \<and> stdout (ok_result p) = fst p \<and> stderr (ok_result p) = snd p"
  by (simp add: ok_result_def str_or_def)

lemma failed_result_invariant:
  assumes "err_code e \<noteq> CodeInt 0"
  shows "\<not> success (failed_result u e) \<and> exitCode (failed_result u e) \<noteq> 0
       \<and> error (failed_result u e) \<noteq> None"
  using assms by (cases "err_code e") (simp_all add: failed_result_def)

lemma failed_result_output:
  "stdout (failed_result u e) = (case err_stdout e of Some s \<Rightarrow> s | None \<Rightarrow> [])
 \<and> stderr (failed_result u e) =
     (case err_stderr e of
        Some s \<Rightarrow> if s \<noteq> [] then s else if err_message e \<noteq> [] then err_message e else u
      | None \<Rightarrow> if err_message e \<noteq> [] then err_message e else u)"
  by (simp add: failed_result_def opt_or_def str_or_def split: option.splits)

lemma runLocally_cases:
  "(\<exists>p. ex ''bash'' [JStr ''-lc'', cmd] = Inr p \<and> runLocally ex cmd = ok_result p)
 \<or> (\<exists>e. ex ''bash'' [JStr ''-lc'', cmd] = Inl e
        \<and> runLocally ex cmd = failed_result ''Unknown local execution error'' e)"
  by (cases "ex ''bash'' [JStr ''-lc'', cmd]") (simp_all add: runLocally_def)

lemma runOverSsh_cases:
  assumes "runOverSsh ex sc cmd = Some r"
  shows "(\<exists>p prog args. ex prog args = Inr p \<and> r = ok_result p)
       \<or> (\<exists>e prog args. ex prog args = Inl e \<and> r = failed_result ''Unknown SSH error'' e)"
proof -
  from assms obtain prog args where inv: "ssh_invocation sc cmd = Some (prog, args)"
    by (auto simp: runOverSsh_def split: option.splits)
  show ?thesis
  proof (cases "ex prog args")
    case (Inl e)
    with inv assms have "r = failed_result ''Unknown SSH error'' e"
      by (simp add: runOverSsh_def)
    with Inl show ?thesis by blast
  next
    case (Inr p)
    with inv assms have "r = ok_result p"
      by (simp add: runOverSsh_def)
    with Inr show ?thesis by blast
  qed
qed

text \<open>
  C10, as the code has it. Every result of \<^verbatim>\<open>runLocally\<close> and of \<^verbatim>\<open>runOverSsh\<close> has
  \<open>success\<close> true exactly when the exit code is 0 and the error field set exactly when
  \<open>success\<close> is false. Its \<open>stdout\<close> and \<open>stderr\<close> are always strings: the captured
  output on success; on failure \<open>stdout\<close> is the captured output or the empty string,
  and \<open>stderr\<close> is the captured output or, when that is empty or absent, the error's
  message, or else the text \<open>Unknown local execution error\<close> (\<open>Unknown SSH error\<close>
  for \<^verbatim>\<open>runOverSsh\<close>). The child process is as \<^verbatim>\<open>execFile\<close> reports it: a
  rejection never carries the integer code 0 (status 0 without a signal is the success
  case).
\<close>

theorem runner_result_invariant:
  assumes "\<forall>prog args e. ex prog args = Inl e \<longrightarrow> err_code e \<noteq> CodeInt 0"
  shows "(success (runLocally ex cmd) \<longleftrightarrow> exitCode (runLocally ex cmd) = 0)
       \<and> (error (runLocally ex cmd) \<noteq> None \<longleftrightarrow> \<not> success (runLocally ex cmd))
       \<and> (runOverSsh ex sc cmd = Some r \<longrightarrow>
            (success r \<longleftrightarrow> exitCode r = 0) \<and> (error r \<noteq> None \<longleftrightarrow> \<not> success r))
       \<and> (ex ''bash'' [JStr ''-lc'', cmd] = Inr (out, err) \<longrightarrow>
            stdout (runLocally ex cmd) = out \<and> stderr (runLocally ex cmd) = err)
       \<and> (ex ''bash'' [JStr ''-lc'', cmd] = Inl e \<longrightarrow>
            stdout (runLocally ex cmd) = (case err_stdout e of Some s \<Rightarrow> s | None \<Rightarrow> [])
          \<and> stderr (runLocally ex cmd) =
              (case err_stderr e of
                 Some s \<Rightarrow> if s \<noteq> [] then s else if err_message e \<noteq> [] then err_message e
                           else ''Unknown local execution error''
               | None \<Rightarrow> if err_message e \<noteq> [] then err_message e
                         else ''Unknown local execution error''))
       \<and> (ssh_invocation sc cmd = Some (prog, args) \<and> ex prog args = Inr (out, err) \<longrightarrow>
            runOverSsh ex sc cmd
              = Some \<lparr> success = True, stdout = out, stderr = err, exitCode = 0, error = None \<rparr>)
       \<and> (ssh_invocation sc cmd = Some (prog, args) \<and> ex prog args = Inl e
            \<and> runOverSsh ex sc cmd = Some r \<longrightarrow>
            stdout r = (case err_stdout e of Some s \<Rightarrow> s | None \<Rightarrow> [])
          \<and> stderr r =
              (case err_stderr e of
                 Some s \<Rightarrow> if s \<noteq> [] then s else if err_message e \<noteq> [] then err_message e
                           else ''Unknown SSH error''
               | None \<Rightarrow> if err_message e \<noteq> [] then err_message e else ''Unknown SSH error''))"
proof (intro conjI impI)
  from runLocally_cases [of ex cmd] assms
  show "success (runLocally ex cmd) \<longleftrightarrow> exitCode (runLocally ex cmd) = 0"
    and "error (runLocally ex cmd) \<noteq> None \<longleftrightarrow> \<not> success (runLocally ex cmd)"
    using ok_result_invariant failed_result_invariant by metis+
next
  assume r: "runOverSsh ex sc cmd = Some r"
  from runOverSsh_cases [OF r] assms
  show "success r \<longleftrightarrow> exitCode r = 0" and "error r \<noteq> None \<longleftrightarrow> \<not> success r"
    using ok_result_invariant failed_result_invariant by metis+
next
  assume "ex ''bash'' [JStr ''-lc'', cmd] = Inr (out, err)"
  then show "stdout (runLocally ex cmd) = out" and "stderr (runLocally ex cmd) = err"
    by (simp_all add: runLocally_def ok_result_invariant)
next
  assume "ex ''bash'' [JStr ''-lc'', cmd] = Inl e"
  then have "runLocally ex cmd = failed_result ''Unknown local execution error'' e"
    by (simp add: runLocally_def)
  then show "stdout (runLocally ex cmd) = (case err_stdout e of Some s \<Rightarrow> s | None \<Rightarrow> [])"
    and "stderr (runLocally ex cmd) =
              (case err_stderr e of
                 Some s \<Rightarrow> if s \<noteq> [] then s else if err_message e \<noteq> [] then err_message e
                           else ''Unknown local execution error''
               | None \<Rightarrow> if err_message e \<noteq> [] then err_message e
                         else ''Unknown local execution error'')"
    by (simp_all add: failed_result_output)
next
  assume "ssh_invocation sc cmd = Some (prog, args) \<and> ex prog args = Inr (out, err)"
  then show "runOverSsh ex sc cmd
              = Some \<lparr> success = True, stdout = out, stderr = err, exitCode = 0, error = None \<rparr>"
    by (simp add: runOverSsh_def ok_result_def str_or_def)
next
  assume "ssh_invocation sc cmd = Some (prog, args) \<and> ex prog args = Inl e
            \<and> runOverSsh ex sc cmd = Some r"
  then have "r = failed_result ''Unknown SSH error'' e"
    by (auto simp: runOverSsh_def)
  then show "stdout r = (case err_stdout e of Some s \<Rightarrow> s | None \<Rightarrow> [])"
    and "stderr r =
              (case err_stderr e of
                 Some s \<Rightarrow> if s \<noteq> [] then s else if err_message e \<noteq> [] then err_message e
                           else ''Unknown SSH error''
               | None \<Rightarrow> if err_message e \<noteq> [] then err_message e else ''Unknown SSH error'')"
    by (simp_all add: failed_result_output)
qed

theorem runner_result_invariant_witness:
  "\<not> success (runLocally exec_fails (JStr ''false''))
 \<and> exitCode (runLocally exec_fails (JStr ''false'')) = 2
 \<and> error (runLocally exec_fails (JStr ''false'')) = Some ''Command failed: bash''
 \<and> stdout (runLocally exec_fails (JStr ''false'')) = []
 \<and> stderr (runLocally exec_fails (JStr ''false'')) = ''boom''
 \<and> runOverSsh exec_fails locked_target (JStr ''false'')
     = Some \<lparr> success = False, stdout = [], stderr = ''boom'', exitCode = 2,
              error = Some ''Command failed: bash'' \<rparr>"
proof -
  have wf: "\<forall>prog args e. exec_fails prog args = Inl e \<longrightarrow> err_code e \<noteq> CodeInt 0"
    by (auto simp: exec_fails_def)
  have f: "exec_fails ''bash'' [JStr ''-lc'', JStr ''false''] =
     Inl \<lparr> err_message = ''Command failed: bash'', err_code = CodeInt 2,
           err_stdout = Some [], err_stderr = Some ''boom'' \<rparr>"
    by (simp add: exec_fails_def)
  have run: "exitCode (runLocally exec_fails (JStr ''false'')) = 2"
    "error (runLocally exec_fails (JStr ''false'')) = Some ''Command failed: bash''"
    by (simp_all add: runLocally_def exec_fails_def failed_result_def)
  have r: "runOverSsh exec_fails locked_target (JStr ''false'')
     = Some \<lparr> success = False, stdout = [], stderr = ''boom'', exitCode = 2,
              error = Some ''Command failed: bash'' \<rparr>"
    by (simp add: runOverSsh_def ssh_invocation_def quoteForShell_def buildSshArgs_def
        locked_target_def exec_fails_def failed_result_def opt_or_def str_or_def)
  show ?thesis
    using run f r
      runner_result_invariant
        [OF wf, where cmd = "JStr ''false''" and sc = locked_target
           and r = "\<lparr> success = False, stdout = [], stderr = ''boom'', exitCode = 2,
                      error = Some ''Command failed: bash'' \<rparr>"
           and e = "\<lparr> err_message = ''Command failed: bash'', err_code = CodeInt 2,
              err_stdout = Some [], err_stderr = Some ''boom'' \<rparr>"]
    by simp
qed

text \<open>
  C10 as stated fails in its default for \<open>stderr\<close>: a process killed on timeout that
  wrote nothing gives a result whose \<open>stderr\<close> is the error's message, not the empty
  string.
\<close>

theorem stderr_default_counterexample:
  "exec_times_out ''bash'' [JStr ''-lc'', JStr ''sleep 600''] =
     Inl \<lparr> err_message = ''Command failed: bash'', err_code = CodeNone,
           err_stdout = Some [], err_stderr = Some [] \<rparr>
 \<and> stderr (runLocally exec_times_out (JStr ''sleep 600'')) = ''Command failed: bash''
 \<and> stderr (runLocally exec_times_out (JStr ''sleep 600'')) \<noteq> []"
  by (simp add: runLocally_def exec_times_out_def failed_result_def opt_or_def str_or_def)

section \<open>Properties of decision parsing\<close>

lemma indexOf_range: "- 1 \<le> indexOf s c \<and> indexOf s c < int (length s)"
  by (induction s) (auto simp: Let_def)

lemma indexOf_first:
  assumes "0 \<le> indexOf s c"
  shows "s ! nat (indexOf s c) = c \<and> c \<notin> set (take (nat (indexOf s c)) s)"
  using assms
proof (induction s)
  case Nil
  then show ?case by simp
next
  case (Cons x xs)
  show ?case
  proof (cases "x = c")
    case True
    then show ?thesis by simp
  next
    case False
    with Cons.prems have nn: "0 \<le> indexOf xs c"
      by (simp add: Let_def split: if_splits)
    with False have eq: "indexOf (x # xs) c = indexOf xs c + 1"
      by (simp add: Let_def)
    have n: "nat (indexOf xs c + 1) = Suc (nat (indexOf xs c))"
      using nn by simp
    from Cons.IH [OF nn] False show ?thesis
      unfolding eq n by simp
  qed
qed

lemma lastIndexOf_last:
  assumes "0 \<le> lastIndexOf s c"
  shows "s ! nat (lastIndexOf s c) = c \<and> c \<notin> set (drop (Suc (nat (lastIndexOf s c))) s)"
proof -
  let ?i = "indexOf (rev s) c"
  from assms have nn: "0 \<le> ?i"
    by (simp add: lastIndexOf_def Let_def split: if_splits)
  then have eq: "lastIndexOf s c = int (length s) - 1 - ?i"
    by (simp add: lastIndexOf_def Let_def)
  from indexOf_range [of "rev s" c] have lt: "nat ?i < length s"
    using nn by simp
  from indexOf_first [OF nn]
  have at: "rev s ! nat ?i = c" and before: "c \<notin> set (take (nat ?i) (rev s))"
    by simp_all
  have pos: "nat (int (length s) - 1 - ?i) = length s - Suc (nat ?i)"
    using nn lt by simp
  from at lt have "s ! (length s - Suc (nat ?i)) = c"
    by (simp add: rev_nth)
  moreover from before lt have "c \<notin> set (drop (length s - nat ?i) s)"
    by (simp add: take_rev)
  moreover have "Suc (length s - Suc (nat ?i)) = length s - nat ?i"
    using lt by simp
  ultimately show ?thesis
    unfolding eq pos by simp
qed

lemma slice_within:
  assumes "0 \<le> a" and "a \<le> b" and "b \<le> int (length s)"
  shows "slice s a b = take (nat (b - a)) (drop (nat a) s)"
  using assms by (simp add: slice_def Let_def min_def)

lemma reference_parse_chatty: "reference_parse chatty_output = None"
  by (simp add: reference_parse_def JSON_parse_def chatty_output_def start_step_def is_digit_def)

lemma chatty_slice:
  "indexOf chatty_output (CHR ''{'') = 16 \<and> lastIndexOf chatty_output (CHR ''}'') = 47
 \<and> slice chatty_output 16 48 = ''{\"action\":\"respond\",\"text\":\"Hi\"}''"
  by (simp add: chatty_output_def lastIndexOf_def slice_def Let_def)

lemma reference_parse_respond:
  "reference_parse ''{\"action\":\"respond\",\"text\":\"Hi\"}''
     = Some (JObj [(''action'', JStr ''respond''), (''text'', JStr ''Hi'')])"
  by (simp add: reference_parse_def JSON_parse_def start_step_def is_digit_def)

lemma safeJsonParse_chatty:
  "safeJsonParse reference_parse chatty_output
     = JObj [(''action'', JStr ''respond''), (''text'', JStr ''Hi'')]"
  using chatty_slice reference_parse_respond
  by (simp add: safeJsonParse_def reference_parse_chatty Let_def)

lemma agent_decided_null:
  assumes "safeJsonParse parse txt = JNull"
  shows "agent_decided parse cfg w req txt =
           (json_reply 200
              [(''action'', JStr ''respond''),
               (''assistant'',
                JStr (if txt = [] then ''I could not decide an action, but I am ready.'' else txt)),
               (''raw'', JStr txt)], [])"
  using assms by (simp add: agent_decided_def respond_reply_def js_or_def)

lemma indexOf_absent: "indexOf s c < 0 \<longleftrightarrow> c \<notin> set s"
  by (induction s) (auto simp: Let_def)

lemma lastIndexOf_absent: "lastIndexOf s c < 0 \<longleftrightarrow> c \<notin> set s"
  using indexOf_absent [of "rev s" c] indexOf_range [of "rev s" c]
  by (auto simp: lastIndexOf_def Let_def)

lemma lastIndexOf_range: "- 1 \<le> lastIndexOf s c \<and> lastIndexOf s c < int (length s)"
  using indexOf_range [of "rev s" c] by (auto simp: lastIndexOf_def Let_def)

lemma reference_parse_nested: "reference_parse nested_output = None"
  by (simp add: reference_parse_def JSON_parse_def nested_output_def start_step_def is_digit_def)

lemma nested_slice:
  "indexOf nested_output (CHR ''{'') = 5 \<and> indexOf nested_output (CHR ''}'') = 34
 \<and> lastIndexOf nested_output (CHR ''}'') = 37
 \<and> slice nested_output 5 38 = ''{\"action\":\"respond\",\"text\":\"a}b\"}''"
  by (simp add: nested_output_def lastIndexOf_def slice_def Let_def)

lemma reference_parse_nested_inner:
  "reference_parse ''{\"action\":\"respond\",\"text\":\"a}b\"}''
     = Some (JObj [(''action'', JStr ''respond''), (''text'', JStr ''a}b'')])"
  by (simp add: reference_parse_def JSON_parse_def start_step_def is_digit_def)

lemma safeJsonParse_nested:
  "safeJsonParse reference_parse nested_output
     = JObj [(''action'', JStr ''respond''), (''text'', JStr ''a}b'')]"
  using nested_slice reference_parse_nested_inner
  by (simp add: safeJsonParse_def reference_parse_nested Let_def)

lemma reference_parse_two_open: "reference_parse two_open_output = None"
  by (simp add: reference_parse_def JSON_parse_def two_open_output_def start_step_def
      is_digit_def)

lemma two_open_slice:
  "indexOf two_open_output (CHR ''{'') = 0 \<and> lastIndexOf two_open_output (CHR ''}'') = 38
 \<and> slice two_open_output 0 39 = two_open_output"
  by (simp add: two_open_output_def lastIndexOf_def slice_def Let_def)

lemma safeJsonParse_two_open: "safeJsonParse reference_parse two_open_output = JNull"
  using two_open_slice by (simp add: safeJsonParse_def reference_parse_two_open Let_def)

text \<open>
  C4. \<^verbatim>\<open>safeJsonParse\<close> first parses the whole text; when that fails and a \<open>{\<close> stands
  before the last \<open>}\<close>, it parses the substring from the first \<open>{\<close> to the last \<open>}\<close>
  inclusive; when that fails too, or there is no such substring, it yields \<^verbatim>\<open>null\<close>, and
  the agent then answers with action \<open>respond\<close>, the raw model output in the \<open>raw\<close>
  field and as the assistant text (a stock sentence when the output is empty). The
  positions are those of the first and of the last occurrence: no \<open>{\<close> stands before
  the start, no \<open>}\<close> after the end, and each is \<open>-1\<close> exactly when the character does
  not occur. For the output \<open>I'll just chat.\<close>, newline,
  \<open>{"action":"respond","text":"Hi"}\<close>, newline, \<open>thanks\<close>, recovery yields the decision
  to respond with the text \<open>Hi\<close>; a \<open>}\<close> inside the decision's text does not end the
  substring, and a stray \<open>{\<close> before the decision does start it.
\<close>

theorem safeJsonParse_recovery:
  "(parse str = Some v \<longrightarrow> safeJsonParse parse str = v)
 \<and> (parse str = None \<and> 0 \<le> indexOf str (CHR ''{'')
      \<and> indexOf str (CHR ''{'') < lastIndexOf str (CHR ''}'') \<longrightarrow>
       safeJsonParse parse str =
         (case parse (slice str (indexOf str (CHR ''{'')) (lastIndexOf str (CHR ''}'') + 1)) of
            Some v \<Rightarrow> v | None \<Rightarrow> JNull)
     \<and> slice str (indexOf str (CHR ''{'')) (lastIndexOf str (CHR ''}'') + 1)
         = take (nat (lastIndexOf str (CHR ''}'') + 1 - indexOf str (CHR ''{'')))
             (drop (nat (indexOf str (CHR ''{''))) str))
 \<and> (parse str = None \<and> \<not> (0 \<le> indexOf str (CHR ''{'')
      \<and> indexOf str (CHR ''{'') < lastIndexOf str (CHR ''}'')) \<longrightarrow>
       safeJsonParse parse str = JNull)
 \<and> (c \<notin> set str \<longrightarrow> indexOf str c = - 1 \<and> lastIndexOf str c = - 1)
 \<and> (c \<in> set str \<longrightarrow>
       0 \<le> indexOf str c \<and> indexOf str c \<le> lastIndexOf str c
     \<and> lastIndexOf str c < int (length str)
     \<and> str ! nat (indexOf str c) = c
     \<and> c \<notin> set (take (nat (indexOf str c)) str)
     \<and> str ! nat (lastIndexOf str c) = c
     \<and> c \<notin> set (drop (Suc (nat (lastIndexOf str c))) str))
 \<and> (safeJsonParse parse str = JNull \<longrightarrow>
       agent_decided parse cfg w req str =
         (json_reply 200
            [(''action'', JStr ''respond''),
             (''assistant'',
              JStr (if str = [] then ''I could not decide an action, but I am ready.'' else str)),
             (''raw'', JStr str)], []))
 \<and> reference_parse chatty_output = None
 \<and> safeJsonParse reference_parse chatty_output
       = JObj [(''action'', JStr ''respond''), (''text'', JStr ''Hi'')]
 \<and> agent_decided reference_parse cfg w req chatty_output =
       (json_reply 200
          [(''action'', JStr ''respond''), (''assistant'', JStr ''Hi''),
           (''raw'', JStr chatty_output)], [])
 \<and> indexOf nested_output (CHR ''}'') = 34
 \<and> lastIndexOf nested_output (CHR ''}'') = 37
 \<and> safeJsonParse reference_parse nested_output
       = JObj [(''action'', JStr ''respond''), (''text'', JStr ''a}b'')]
 \<and> safeJsonParse reference_parse two_open_output = JNull"
proof (intro conjI impI)
  show "safeJsonParse parse str = v" if "parse str = Some v"
    using that by (simp add: safeJsonParse_def)
next
  assume a: "parse str = None \<and> 0 \<le> indexOf str (CHR ''{'')
      \<and> indexOf str (CHR ''{'') < lastIndexOf str (CHR ''}'')"
  then show "safeJsonParse parse str =
         (case parse (slice str (indexOf str (CHR ''{'')) (lastIndexOf str (CHR ''}'') + 1)) of
            Some v \<Rightarrow> v | None \<Rightarrow> JNull)"
    by (simp add: safeJsonParse_def Let_def)
  have bound: "lastIndexOf str (CHR ''}'') < int (length str)"
    using lastIndexOf_range by simp
  show "slice str (indexOf str (CHR ''{'')) (lastIndexOf str (CHR ''}'') + 1)
         = take (nat (lastIndexOf str (CHR ''}'') + 1 - indexOf str (CHR ''{'')))
             (drop (nat (indexOf str (CHR ''{''))) str)"
    using a bound by (intro slice_within) simp_all
next
  show "safeJsonParse parse str = JNull"
    if "parse str = None \<and> \<not> (0 \<le> indexOf str (CHR ''{'')
      \<and> indexOf str (CHR ''{'') < lastIndexOf str (CHR ''}''))"
    using that by (auto simp: safeJsonParse_def Let_def)
next
  assume "c \<notin> set str"
  then show "indexOf str c = - 1" and "lastIndexOf str c = - 1"
    using indexOf_absent [of str c] indexOf_range [of str c]
      lastIndexOf_absent [of str c] lastIndexOf_range [of str c]
    by simp_all
next
  assume m: "c \<in> set str"
  then have i: "0 \<le> indexOf str c" and l: "0 \<le> lastIndexOf str c"
    using indexOf_absent [of str c] lastIndexOf_absent [of str c] by simp_all
  show "0 \<le> indexOf str c" by (rule i)
  show "lastIndexOf str c < int (length str)"
    using lastIndexOf_range [of str c] by simp
  show first: "str ! nat (indexOf str c) = c"
    and before: "c \<notin> set (take (nat (indexOf str c)) str)"
    using indexOf_first [OF i] by simp_all
  show last: "str ! nat (lastIndexOf str c) = c"
    and after: "c \<notin> set (drop (Suc (nat (lastIndexOf str c))) str)"
    using lastIndexOf_last [OF l] by simp_all
  show "indexOf str c \<le> lastIndexOf str c"
  proof (rule ccontr)
    assume "\<not> indexOf str c \<le> lastIndexOf str c"
    then have lt: "nat (lastIndexOf str c) < nat (indexOf str c)"
      using l by simp
    have len: "nat (indexOf str c) \<le> length str"
      using indexOf_range [of str c] by linarith
    from lt len have "str ! nat (lastIndexOf str c) \<in> set (take (nat (indexOf str c)) str)"
      by (metis in_set_conv_nth length_take min.absorb2 nth_take)
    with last before show False by simp
  qed
next
  show "agent_decided parse cfg w req str =
         (json_reply 200
            [(''action'', JStr ''respond''),
             (''assistant'',
              JStr (if str = [] then ''I could not decide an action, but I am ready.'' else str)),
             (''raw'', JStr str)], [])"
    if "safeJsonParse parse str = JNull"
    using that by (rule agent_decided_null)
next
  show "reference_parse chatty_output = None"
    by (rule reference_parse_chatty)
  show "safeJsonParse reference_parse chatty_output
       = JObj [(''action'', JStr ''respond''), (''text'', JStr ''Hi'')]"
    by (rule safeJsonParse_chatty)
  show "agent_decided reference_parse cfg w req chatty_output =
       (json_reply 200
          [(''action'', JStr ''respond''), (''assistant'', JStr ''Hi''),
           (''raw'', JStr chatty_output)], [])"
    by (simp add: agent_decided_def safeJsonParse_chatty respond_reply_def js_or_def)
  show "indexOf nested_output (CHR ''}'') = 34"
    and "lastIndexOf nested_output (CHR ''}'') = 37"
    using nested_slice by simp_all
  show "safeJsonParse reference_parse nested_output
       = JObj [(''action'', JStr ''respond''), (''text'', JStr ''a}b'')]"
    by (rule safeJsonParse_nested)
  show "safeJsonParse reference_parse two_open_output = JNull"
    by (rule safeJsonParse_two_open)
qed

theorem safeJsonParse_recovery_witness:
  "reference_parse ''{\"action\":\"respond\",\"text\":\"Hi\"}''
     = Some (JObj [(''action'', JStr ''respond''), (''text'', JStr ''Hi'')])
 \<and> safeJsonParse reference_parse ''{\"action\":\"respond\",\"text\":\"Hi\"}''
     = JObj [(''action'', JStr ''respond''), (''text'', JStr ''Hi'')]
 \<and> reference_parse chatty_output = None
 \<and> indexOf chatty_output (CHR ''{'') = 16
 \<and> lastIndexOf chatty_output (CHR ''}'') = 47
 \<and> slice chatty_output 16 48 = ''{\"action\":\"respond\",\"text\":\"Hi\"}''
 \<and> safeJsonParse reference_parse chatty_output
     = JObj [(''action'', JStr ''respond''), (''text'', JStr ''Hi'')]
 \<and> reference_parse ''hello'' = None
 \<and> indexOf ''hello'' (CHR ''{'') = - 1
 \<and> safeJsonParse reference_parse ''hello'' = JNull
 \<and> agent_decided reference_parse locked_config
       (make_world backend_down backend_down exec_succeeds) session_request ''hello''
     = (json_reply 200
          [(''action'', JStr ''respond''), (''assistant'', JStr ''hello''),
           (''raw'', JStr ''hello'')], [])"
proof -
  have p: "reference_parse ''hello'' = None"
    by (simp add: reference_parse_def JSON_parse_def start_step_def is_digit_def)
  have i: "indexOf ''hello'' (CHR ''{'') = - 1"
    by simp
  note strict = safeJsonParse_recovery
    [where parse = reference_parse and str = "''{\"action\":\"respond\",\"text\":\"Hi\"}''"
       and v = "JObj [(''action'', JStr ''respond''), (''text'', JStr ''Hi'')]"]
  from strict reference_parse_respond
  have s: "safeJsonParse reference_parse ''{\"action\":\"respond\",\"text\":\"Hi\"}''
     = JObj [(''action'', JStr ''respond''), (''text'', JStr ''Hi'')]"
    by blast
  note recover = safeJsonParse_recovery [where parse = reference_parse and str = chatty_output]
  from recover reference_parse_chatty chatty_slice reference_parse_respond
  have c: "safeJsonParse reference_parse chatty_output
     = JObj [(''action'', JStr ''respond''), (''text'', JStr ''Hi'')]"
    by simp
  note null = safeJsonParse_recovery
    [where parse = reference_parse and str = "''hello''" and cfg = locked_config
       and w = "make_world backend_down backend_down exec_succeeds" and req = session_request
       and c = "CHR ''{''"]
  from null p i have n: "safeJsonParse reference_parse ''hello'' = JNull"
    by simp
  from null n have a: "agent_decided reference_parse locked_config
       (make_world backend_down backend_down exec_succeeds) session_request ''hello''
     = (json_reply 200
          [(''action'', JStr ''respond''), (''assistant'', JStr ''hello''),
           (''raw'', JStr ''hello'')], [])"
    by simp
  show ?thesis
    using p i s c n a reference_parse_respond reference_parse_chatty chatty_slice by blast
qed

section \<open>Properties of the agent endpoint\<close>

lemma ollamaChat_rejected: "ollamaChat (FetchRejected e) = Inl e"
  by (simp add: ollamaChat_def)

lemma ollamaChat_says: "ollamaChat (backend_says c) = Inr c"
  by (simp add: ollamaChat_def backend_says_def)

lemma ollamaChat_down:
  "ollamaChat backend_down = Inl \<lparr> ename = ''TypeError'', emessage = ''fetch failed'' \<rparr>"
  by (simp add: ollamaChat_def backend_down_def)








lemma valid_session_body:
  assumes "truthy (js_get req ''sessionId'')"
  shows "js_get (js_or req (JObj [])) ''sessionId'' = js_get req ''sessionId''"
  using assms by (cases req) (simp_all add: js_or_def)

lemma agent_after_session:
  assumes "truthy (js_get req ''sessionId'')"
    and "getConversation w (js_get req ''sessionId'') = Inr conv"
    and "truthy conv"
  shows "post_api_brain_agent parse cfg w req =
           (case getConversationMessages w (js_get conv ''id'') of
              Inl e \<Rightarrow> (agent_failed e, [])
            | Inr history \<Rightarrow>
                (case ollamaChat (decide_fetch w) of
                   Inl e \<Rightarrow> (agent_failed e, [Decide])
                 | Inr decisionRaw \<Rightarrow>
                     (fst (agent_decided parse cfg w req decisionRaw),
                      Decide # snd (agent_decided parse cfg w req decisionRaw))))"
  using assms
  by (simp add: post_api_brain_agent_def valid_session_body Let_def
      split: sum.splits prod.splits)

lemma demo_session:
  "truthy (js_get session_request ''sessionId'')"
  "getConversation (make_world d s ex) (js_get session_request ''sessionId'')
     = Inr (JObj [(''id'', JNum ''7''), (''session_id'', JStr ''s-1'')])"
  "truthy (JObj [(''id'', JNum ''7''), (''session_id'', JStr ''s-1'')])"
  "getConversationMessages (make_world d s ex) conversationId = Inr []"
  "decide_fetch (make_world d s ex) = d"
  "summary_fetch (make_world d s ex) = s"
  "execFileAsync (make_world d s ex) = ex"
  by (simp_all add: session_request_def make_world_def known_session_def no_messages_def)

lemma demo_agent:
  "post_api_brain_agent parse cfg (make_world d s ex) session_request =
     (case ollamaChat d of
        Inl e \<Rightarrow> (agent_failed e, [Decide])
      | Inr decisionRaw \<Rightarrow>
          (fst (agent_decided parse cfg (make_world d s ex) session_request decisionRaw),
           Decide # snd (agent_decided parse cfg (make_world d s ex) session_request decisionRaw)))"
  using agent_after_session
    [OF demo_session(1) demo_session(2) [of d s ex] demo_session(3), of parse cfg]
  by (simp add: demo_session)

lemma reference_parse_constructor:
  "reference_parse constructor_decision
     = Some (JObj [(''action'', JStr ''run_skill''), (''skillId'', JStr ''constructor'')])"
  by (simp add: reference_parse_def JSON_parse_def constructor_decision_def start_step_def
      is_digit_def)


lemma reference_parse_vpn:
  "reference_parse vpn_decision
     = Some (JObj [(''action'', JStr ''run_skill''), (''skillId'', JStr ''vpn-status''),
                   (''reason'', JStr ''asked'')])"
  by (simp add: reference_parse_def JSON_parse_def vpn_decision_def start_step_def
      is_digit_def)

lemma skills_get_samples:
  "skills_get ''constructor'' = Inherited"
  "skills_get ''reboot'' = Absent"
  "skills_get ''vpn-status'' = Registered \<lparr> title = ''VPN Status'', command = vpn_status_command \<rparr>"
  "skills_get ''quick-fix'' = Registered \<lparr> title = ''Auto Fix Orbit'', command = quick_fix_command \<rparr>"
  by (simp_all add: skills_get_def OPENCLAW_SKILLS_def Object_prototype_keys_def)

lemma local_target:
  "resolveSshConfig local_config req
     = \<lparr> host = JStr ''168.231.78.113'', user = JStr ''root'', password = JStr '''' \<rparr>"
  by (simp add: resolveSshConfig_def local_config_def Let_def js_or_def js_and_def)

lemma locked_target:
  "resolveSshConfig locked_config req = locked_target"
  by (simp add: resolveSshConfig_def locked_config_def locked_target_def Let_def js_or_def
      js_and_def)

lemma locked_execute:
  "execute_skill locked_config (make_world d s exec_succeeds) locked_target (Registered sk)
     = (Some \<lparr> success = True, stdout = ''all good'', stderr = '''', exitCode = 0,
               error = None \<rparr>,
        RunOverSsh locked_target (JStr (command sk)))"
  by (simp add: execute_skill_def shouldRunOpenClawLocally_def locked_config_def
      locked_target_def make_world_def runOverSsh_def ssh_invocation_def quoteForShell_def
      buildSshArgs_def exec_succeeds_def ok_result_def str_or_def)

lemma locked_not_missing: "\<not> missing_password locked_config locked_target"
  by (simp add: missing_password_def locked_target_def)

text \<open>
  C2. A decision to run a skill whose id is not in the registry is answered with a
  client error and no runner is called: the handler tests the result of
  \<^verbatim>\<open>OPENCLAW_SKILLS[skillId]\<close>. That read also finds what every object inherits, so for
  the id \<open>constructor\<close>, which is not in the registry, the test passes: on a server in
  mode \<open>local\<close> the reply is an ordinary \<open>run_skill\<close> answer and \<^verbatim>\<open>runLocally\<close> has
  been called with no command; on a server with a remote target \<^verbatim>\<open>runOverSsh\<close> has
  been called and has sent \<open>bash -lc 'undefined'\<close> to the host.
\<close>

theorem inherited_key_reaches_runner:
  "map_of OPENCLAW_SKILLS ''constructor'' = None
 \<and> code (fst (post_api_brain_agent reference_parse local_config
       (make_world (backend_says constructor_decision) backend_down exec_succeeds)
       session_request)) = 200
 \<and> action_of (fst (post_api_brain_agent reference_parse local_config
       (make_world (backend_says constructor_decision) backend_down exec_succeeds)
       session_request)) = JStr ''run_skill''
 \<and> snd (post_api_brain_agent reference_parse local_config
       (make_world (backend_says constructor_decision) backend_down exec_succeeds)
       session_request) = [Decide, RunLocally JUndefined, Summarize]
 \<and> code (fst (post_api_brain_agent reference_parse locked_config
       (make_world (backend_says constructor_decision) backend_down exec_succeeds)
       session_request)) = 200
 \<and> snd (post_api_brain_agent reference_parse locked_config
       (make_world (backend_says constructor_decision) backend_down exec_succeeds)
       session_request) = [Decide, RunOverSsh locked_target JUndefined, Summarize]
 \<and> ssh_invocation locked_target JUndefined
     = Some (''sshpass'',
             [JStr ''-p'', JStr ''s3cret'', JStr ''ssh'',
              JStr ''-o'', JStr ''StrictHostKeyChecking=no'',
              JStr ''-o'', JStr ''UserKnownHostsFile=/dev/null'',
              JStr ''-o'', JStr ''ConnectTimeout=15'',
              JStr ''root@10.0.0.5'',
              JStr (''bash -lc '' @ [CHR 0x27] @ ''undefined'' @ [CHR 0x27])])"
proof -
  have reg: "map_of OPENCLAW_SKILLS ''constructor'' = None"
    by (simp add: OPENCLAW_SKILLS_def)
  have dec: "safeJsonParse reference_parse constructor_decision
               = JObj [(''action'', JStr ''run_skill''), (''skillId'', JStr ''constructor'')]"
    by (simp add: safeJsonParse_def reference_parse_constructor)
  have decided: "agent_decided reference_parse cfg
               (make_world (backend_says constructor_decision) backend_down exec_succeeds)
               session_request constructor_decision
             = agent_run_skill cfg
               (make_world (backend_says constructor_decision) backend_down exec_succeeds)
               session_request constructor_decision (JStr ''constructor'') Inherited" for cfg
    by (simp add: agent_decided_def dec Let_def skills_get_samples)
  have ex: "execute_skill local_config
              (make_world (backend_says constructor_decision) backend_down exec_succeeds)
              \<lparr> host = JStr ''168.231.78.113'', user = JStr ''root'', password = JStr [] \<rparr>
              Inherited
            = (Some \<lparr> success = True, stdout = ''all good'', stderr = [], exitCode = 0,
                      error = None \<rparr>, RunLocally JUndefined)"
    by (simp add: execute_skill_def shouldRunOpenClawLocally_def local_config_def
        make_world_def runLocally_def exec_succeeds_def ok_result_def str_or_def)
  have nm: "\<not> missing_password local_config
              \<lparr> host = JStr ''168.231.78.113'', user = JStr ''root'', password = JStr [] \<rparr>"
    by (simp add: missing_password_def shouldRunOpenClawLocally_def local_config_def)
  have run: "agent_run_skill local_config
               (make_world (backend_says constructor_decision) backend_down exec_succeeds)
               session_request constructor_decision (JStr ''constructor'') Inherited
             = (json_reply 200
                  [(''action'', JStr ''run_skill''),
                   (''skillId'', JStr ''constructor''),
                   (''title'', JUndefined),
                   (''assistant'',
                    JStr (summary_fallback ''undefined'' ''168.231.78.113''
                            \<lparr> ename = ''TypeError'', emessage = ''fetch failed'' \<rparr>)),
                   (''tool'',
                    tool_report
                      \<lparr> host = JStr ''168.231.78.113'', user = JStr ''root'',
                        password = JStr [] \<rparr>
                      \<lparr> success = True, stdout = ''all good'', stderr = [], exitCode = 0,
                        error = None \<rparr>
                      ''2026-01-01T00:00:00.000Z''),
                   (''raw'', JStr constructor_decision)],
                [RunLocally JUndefined, Summarize])"
    by (simp add: agent_run_skill_def local_target nm ex Let_def demo_session ollamaChat_down)
      (simp add: make_world_def)
  have inv: "ssh_invocation locked_target JUndefined
     = Some (''sshpass'',
             [JStr ''-p'', JStr ''s3cret'', JStr ''ssh'',
              JStr ''-o'', JStr ''StrictHostKeyChecking=no'',
              JStr ''-o'', JStr ''UserKnownHostsFile=/dev/null'',
              JStr ''-o'', JStr ''ConnectTimeout=15'',
              JStr ''root@10.0.0.5'',
              JStr (''bash -lc '' @ [CHR 0x27] @ ''undefined'' @ [CHR 0x27])])"
    by (simp add: ssh_invocation_def quoteForShell_def buildSshArgs_def locked_target_def
        escape_quote_def)
  have exr: "execute_skill locked_config
              (make_world (backend_says constructor_decision) backend_down exec_succeeds)
              locked_target Inherited
            = (Some \<lparr> success = True, stdout = ''all good'', stderr = [], exitCode = 0,
                      error = None \<rparr>, RunOverSsh locked_target JUndefined)"
    by (simp add: execute_skill_def shouldRunOpenClawLocally_def locked_config_def
        runOverSsh_def inv demo_session exec_succeeds_def ok_result_def str_or_def)
      (simp add: locked_target_def)
  have runr: "snd (agent_run_skill locked_config
               (make_world (backend_says constructor_decision) backend_down exec_succeeds)
               session_request constructor_decision (JStr ''constructor'') Inherited)
             = [RunOverSsh locked_target JUndefined, Summarize]"
    "code (fst (agent_run_skill locked_config
               (make_world (backend_says constructor_decision) backend_down exec_succeeds)
               session_request constructor_decision (JStr ''constructor'') Inherited)) = 200"
    by (simp_all add: agent_run_skill_def locked_target locked_not_missing exr Let_def)
      (simp_all add: locked_target_def json_reply_def)
  show ?thesis
    by (simp add: reg demo_agent ollamaChat_says decided run runr inv json_reply_def
        action_of_def)
qed










lemma show_nat_503: "show_nat 503 = ''503''"
  by code_simp

text \<open>
  C7, as the code has it. For a known session whose messages have been read, the
  decision call fails exactly when the fetch is rejected (a transport error, or the
  abort fired by the timeout), when the backend answers with a status that is not ok,
  or when the body of an ok answer is not JSON. In each case the request is answered
  with status 500 and the body \<open>{error: 'Failed to process agent request', detail:
  <message>}\<close>, where the message is the rejection's message (its rendering when
  the message is empty), or \<open>Ollama error (<status>): <body text, or the status text
  when the body is empty or unreadable>\<close>; the decision call is the only external call
  made, so no runner is called. The reply is an error, not a decision to respond.
\<close>

theorem decision_failure_answered:
  assumes "truthy (js_get req ''sessionId'')"
    and "getConversation w (js_get req ''sessionId'') = Inr conv"
    and "truthy conv"
    and "getConversationMessages w (js_get conv ''id'') = Inr history"
  shows "(decide_fetch w = FetchRejected e \<longrightarrow>
            post_api_brain_agent parse cfg w req =
              (json_reply 500
                 [(''error'', JStr ''Failed to process agent request''),
                  (''detail'',
                   JStr (if emessage e \<noteq> [] then emessage e else error_toString e))],
               [Decide]))
       \<and> (decide_fetch w = FetchResponded resp \<and> \<not> ok resp \<longrightarrow>
            post_api_brain_agent parse cfg w req =
              (json_reply 500
                 [(''error'', JStr ''Failed to process agent request''),
                  (''detail'',
                   JStr (''Ollama error ('' @ show_nat (status resp) @ ''): ''
                         @ (case text_result resp of
                              None \<Rightarrow> statusText resp
                            | Some t \<Rightarrow> if t = [] then statusText resp else t)))],
               [Decide]))
       \<and> (decide_fetch w = FetchResponded resp \<and> ok resp \<and> json_result resp = Inl e \<longrightarrow>
            post_api_brain_agent parse cfg w req =
              (json_reply 500
                 [(''error'', JStr ''Failed to process agent request''),
                  (''detail'',
                   JStr (if emessage e \<noteq> [] then emessage e else error_toString e))],
               [Decide]))
       \<and> ((\<exists>x. ollamaChat (decide_fetch w) = Inl x) \<longrightarrow>
            code (fst (post_api_brain_agent parse cfg w req)) = 500
          \<and> action_of (fst (post_api_brain_agent parse cfg w req)) = JUndefined
          \<and> snd (post_api_brain_agent parse cfg w req) = [Decide])
       \<and> ((\<exists>x. ollamaChat (decide_fetch w) = Inl x) =
            (case decide_fetch w of
               FetchRejected x \<Rightarrow> True
             | FetchResponded r \<Rightarrow> \<not> ok r \<or> isl (json_result r)))"
proof -
  note top = agent_after_session [OF assms(1) assms(2) assms(3), of parse cfg]
  have failed: "post_api_brain_agent parse cfg w req = (agent_failed x, [Decide])"
    if "ollamaChat (decide_fetch w) = Inl x" for x
    unfolding top using assms(4) that by simp
  have rejected: "post_api_brain_agent parse cfg w req =
              (json_reply 500
                 [(''error'', JStr ''Failed to process agent request''),
                  (''detail'',
                   JStr (if emessage e \<noteq> [] then emessage e else error_toString e))],
               [Decide])"
    if "decide_fetch w = FetchRejected e"
  proof -
    from that have "ollamaChat (decide_fetch w) = Inl e"
      by (simp add: ollamaChat_def)
    from failed [OF this] show ?thesis
      by (simp add: agent_failed_def error_detail_def)
  qed
  have refused: "post_api_brain_agent parse cfg w req =
              (json_reply 500
                 [(''error'', JStr ''Failed to process agent request''),
                  (''detail'',
                   JStr (''Ollama error ('' @ show_nat (status resp) @ ''): ''
                         @ (case text_result resp of
                              None \<Rightarrow> statusText resp
                            | Some t \<Rightarrow> if t = [] then statusText resp else t)))],
               [Decide])"
    if "decide_fetch w = FetchResponded resp \<and> \<not> ok resp"
  proof -
    from that have "ollamaChat (decide_fetch w) =
        Inl \<lparr> ename = ''Error'',
              emessage = ''Ollama error ('' @ show_nat (status resp) @ ''): ''
                         @ str_or (opt_or (text_result resp) []) (statusText resp) \<rparr>"
      by (simp add: ollamaChat_def)
    from failed [OF this] show ?thesis
      by (simp add: agent_failed_def error_detail_def str_or_def opt_or_def
          split: option.splits del: show_nat.simps)
  qed
  have garbled: "post_api_brain_agent parse cfg w req =
              (json_reply 500
                 [(''error'', JStr ''Failed to process agent request''),
                  (''detail'',
                   JStr (if emessage e \<noteq> [] then emessage e else error_toString e))],
               [Decide])"
    if "decide_fetch w = FetchResponded resp \<and> ok resp \<and> json_result resp = Inl e"
  proof -
    from that have "ollamaChat (decide_fetch w) = Inl e"
      by (simp add: ollamaChat_def)
    from failed [OF this] show ?thesis
      by (simp add: agent_failed_def error_detail_def)
  qed
  have any: "code (fst (post_api_brain_agent parse cfg w req)) = 500
          \<and> action_of (fst (post_api_brain_agent parse cfg w req)) = JUndefined
          \<and> snd (post_api_brain_agent parse cfg w req) = [Decide]"
    if "\<exists>x. ollamaChat (decide_fetch w) = Inl x"
  proof -
    from that obtain x where "ollamaChat (decide_fetch w) = Inl x"
      by blast
    from failed [OF this] show ?thesis
      by (simp add: agent_failed_def json_reply_def action_of_def)
  qed
  have exactly: "(\<exists>x. ollamaChat (decide_fetch w) = Inl x) =
            (case decide_fetch w of
               FetchRejected x \<Rightarrow> True
             | FetchResponded r \<Rightarrow> \<not> ok r \<or> isl (json_result r))"
    by (auto simp add: ollamaChat_def isl_def split: fetch_outcome.splits sum.splits
        simp del: show_nat.simps)
  from rejected refused garbled any exactly show ?thesis
    by blast
qed

theorem decision_failure_answered_witness:
  "post_api_brain_agent reference_parse local_config
       (make_world backend_down (backend_says ''fine'') exec_succeeds) session_request
     = (json_reply 500
          [(''error'', JStr ''Failed to process agent request''),
           (''detail'', JStr ''fetch failed'')],
        [Decide])
 \<and> post_api_brain_agent reference_parse local_config
       (make_world backend_unavailable (backend_says ''fine'') exec_succeeds) session_request
     = (json_reply 500
          [(''error'', JStr ''Failed to process agent request''),
           (''detail'', JStr ''Ollama error (503): overloaded'')],
        [Decide])
 \<and> post_api_brain_agent reference_parse local_config
       (make_world backend_garbled (backend_says ''fine'') exec_succeeds) session_request
     = (json_reply 500
          [(''error'', JStr ''Failed to process agent request''),
           (''detail'', JStr ''Unexpected token <'')],
        [Decide])"
proof -
  have down: "post_api_brain_agent reference_parse local_config
       (make_world backend_down (backend_says ''fine'') exec_succeeds) session_request
     = (json_reply 500
          [(''error'', JStr ''Failed to process agent request''),
           (''detail'', JStr ''fetch failed'')],
        [Decide])"
    using decision_failure_answered
      [OF demo_session(1)
          demo_session(2) [of backend_down "backend_says ''fine''" exec_succeeds]
          demo_session(3) demo_session(4),
       where parse = reference_parse and cfg = local_config
         and e = "\<lparr> ename = ''TypeError'', emessage = ''fetch failed'' \<rparr>"
         and resp = "\<lparr> ok = True, status = 200, statusText = [], text_result = None,
                       json_result = Inr JNull \<rparr>"]
    by (simp add: demo_session backend_down_def del: show_nat.simps)
  have unavailable: "post_api_brain_agent reference_parse local_config
       (make_world backend_unavailable (backend_says ''fine'') exec_succeeds) session_request
     = (json_reply 500
          [(''error'', JStr ''Failed to process agent request''),
           (''detail'', JStr ''Ollama error (503): overloaded'')],
        [Decide])"
    using decision_failure_answered
      [OF demo_session(1)
          demo_session(2) [of backend_unavailable "backend_says ''fine''" exec_succeeds]
          demo_session(3) demo_session(4),
       where parse = reference_parse and cfg = local_config
         and e = TypeError_primitive
         and resp = "\<lparr> ok = False, status = 503, statusText = ''Service Unavailable'',
                       text_result = Some ''overloaded'',
                       json_result = Inl \<lparr> ename = ''SyntaxError'',
                                             emessage = ''Unexpected token o'' \<rparr> \<rparr>"]
    by (simp add: demo_session backend_unavailable_def show_nat_503 del: show_nat.simps)
  have garbled: "post_api_brain_agent reference_parse local_config
       (make_world backend_garbled (backend_says ''fine'') exec_succeeds) session_request
     = (json_reply 500
          [(''error'', JStr ''Failed to process agent request''),
           (''detail'', JStr ''Unexpected token <'')],
        [Decide])"
    using decision_failure_answered
      [OF demo_session(1)
          demo_session(2) [of backend_garbled "backend_says ''fine''" exec_succeeds]
          demo_session(3) demo_session(4),
       where parse = reference_parse and cfg = local_config
         and e = "\<lparr> ename = ''SyntaxError'', emessage = ''Unexpected token <'' \<rparr>"
         and resp = "\<lparr> ok = True, status = 200, statusText = ''OK'',
                       text_result = Some ''<html>'',
                       json_result = Inl \<lparr> ename = ''SyntaxError'',
                                             emessage = ''Unexpected token <'' \<rparr> \<rparr>"]
    by (simp add: demo_session backend_garbled_def del: show_nat.simps)
  from down unavailable garbled show ?thesis
    by (intro conjI)
qed

text \<open>
  C7 as stated fails: with the model backend unreachable the reply to a known session
  is the server error 500, not an answer with action \<open>respond\<close>.
\<close>

theorem decision_failure_counterexample:
  "decide_fetch (make_world backend_down backend_down exec_succeeds)
     = FetchRejected \<lparr> ename = ''TypeError'', emessage = ''fetch failed'' \<rparr>
 \<and> code (fst (post_api_brain_agent reference_parse locked_config
       (make_world backend_down backend_down exec_succeeds) session_request)) = 500
 \<and> action_of (fst (post_api_brain_agent reference_parse locked_config
       (make_world backend_down backend_down exec_succeeds) session_request)) \<noteq> JStr ''respond''"
proof -
  have d: "decide_fetch (make_world backend_down backend_down exec_succeeds)
     = FetchRejected \<lparr> ename = ''TypeError'', emessage = ''fetch failed'' \<rparr>"
    by (simp add: demo_session backend_down_def)
  have r: "fst (post_api_brain_agent reference_parse locked_config
       (make_world backend_down backend_down exec_succeeds) session_request)
     = agent_failed \<lparr> ename = ''TypeError'', emessage = ''fetch failed'' \<rparr>"
    by (simp add: demo_agent ollamaChat_down)
  show ?thesis
    unfolding r using d by (simp add: agent_failed_def json_reply_def action_of_def)
qed

section \<open>Properties of the summary\<close>

lemma show_int_zero: "show_int 0 = ''0''"
  by code_simp

lemma agent_run_skill_fallback:
  assumes "\<not> missing_password cfg (resolveSshConfig cfg req)"
    and "execute_skill cfg w (resolveSshConfig cfg req) (Registered s) = (Some x, ev)"
    and "js_ToString (host (resolveSshConfig cfg req)) = Some h"
    and "ollamaChat (summary_fetch w) = Inl err"
  shows "agent_run_skill cfg w req raw skillId (Registered s) =
           (json_reply 200
              [(''action'', JStr ''run_skill''),
               (''skillId'', skillId),
               (''title'', JStr (title s)),
               (''assistant'', JStr (summary_fallback (title s) h err)),
               (''tool'', tool_report (resolveSshConfig cfg req) x (now w)),
               (''raw'', JStr raw)],
            [ev, Summarize])"
  using assms by (simp add: agent_run_skill_def Let_def)

lemma agent_decided_registered:
  assumes "js_get (safeJsonParse parse raw) ''action'' = JStr ''run_skill''"
    and "js_ToString (js_get (safeJsonParse parse raw) ''skillId'') = Some key"
    and "skills_get key = Registered s"
  shows "agent_decided parse cfg w req raw =
           agent_run_skill cfg w req raw (js_get (safeJsonParse parse raw) ''skillId'')
             (Registered s)"
proof -
  have "truthy (safeJsonParse parse raw)"
    using assms(1) by (cases "safeJsonParse parse raw") simp_all
  then show ?thesis
    using assms by (simp add: agent_decided_def Let_def)
qed

lemma skill_endpoint_null_summary:
  assumes "skills_get skillId = Registered s"
    and "\<not> missing_password cfg (resolveSshConfig cfg req)"
    and "execute_skill cfg w (resolveSshConfig cfg req) (Registered s) = (Some x, ev)"
    and "ollamaChat (summary_fetch w) = Inl err"
  shows "code (fst (post_api_openclaw_skills cfg w skillId req)) = 200
       \<and> js_get (payload (fst (post_api_openclaw_skills cfg w skillId req))) ''summary'' = JNull"
  using assms by (simp add: post_api_openclaw_skills_def Let_def json_reply_def)

text \<open>
  C8, as the code has it. When a skill has been executed and the summary call fails,
  the agent endpoint answers with the sentence \<open>Executed <title> on <host>. (Summary
  unavailable: <reason>)\<close> as assistant text: never empty, and made of the skill's title
  and the target host. The direct skill endpoint does not: its reply carries
  \<open>summary: null\<close>, and the client composes a sentence of its own.
\<close>

theorem summary_failure_fallback:
  "(truthy (js_get req ''sessionId'')
    \<and> getConversation w (js_get req ''sessionId'') = Inr conv \<and> truthy conv
    \<and> getConversationMessages w (js_get conv ''id'') = Inr history
    \<and> ollamaChat (decide_fetch w) = Inr raw
    \<and> js_get (safeJsonParse parse raw) ''action'' = JStr ''run_skill''
    \<and> js_ToString (js_get (safeJsonParse parse raw) ''skillId'') = Some key
    \<and> skills_get key = Registered s
    \<and> \<not> missing_password cfg (resolveSshConfig cfg req)
    \<and> execute_skill cfg w (resolveSshConfig cfg req) (Registered s) = (Some x, ev)
    \<and> js_ToString (host (resolveSshConfig cfg req)) = Some h
    \<and> ollamaChat (summary_fetch w) = Inl err \<longrightarrow>
      code (fst (post_api_brain_agent parse cfg w req)) = 200
    \<and> js_get (payload (fst (post_api_brain_agent parse cfg w req))) ''assistant''
        = JStr (''Executed '' @ title s @ '' on '' @ h @ ''. (Summary unavailable: ''
                @ (if emessage err \<noteq> [] then emessage err else error_toString err) @ '')'')
    \<and> snd (post_api_brain_agent parse cfg w req) = [Decide, ev, Summarize])
 \<and> (skills_get skillId = Registered sk
    \<and> \<not> missing_password cfg (resolveSshConfig cfg body)
    \<and> execute_skill cfg w (resolveSshConfig cfg body) (Registered sk) = (Some res, evt)
    \<and> ollamaChat (summary_fetch w) = Inl err \<longrightarrow>
      code (fst (post_api_openclaw_skills cfg w skillId body)) = 200
    \<and> js_get (payload (fst (post_api_openclaw_skills cfg w skillId body))) ''summary'' = JNull)"
proof (intro conjI impI)
  assume a: "truthy (js_get req ''sessionId'')
    \<and> getConversation w (js_get req ''sessionId'') = Inr conv \<and> truthy conv
    \<and> getConversationMessages w (js_get conv ''id'') = Inr history
    \<and> ollamaChat (decide_fetch w) = Inr raw
    \<and> js_get (safeJsonParse parse raw) ''action'' = JStr ''run_skill''
    \<and> js_ToString (js_get (safeJsonParse parse raw) ''skillId'') = Some key
    \<and> skills_get key = Registered s
    \<and> \<not> missing_password cfg (resolveSshConfig cfg req)
    \<and> execute_skill cfg w (resolveSshConfig cfg req) (Registered s) = (Some x, ev)
    \<and> js_ToString (host (resolveSshConfig cfg req)) = Some h
    \<and> ollamaChat (summary_fetch w) = Inl err"
  then have top: "post_api_brain_agent parse cfg w req =
      (fst (agent_decided parse cfg w req raw), Decide # snd (agent_decided parse cfg w req raw))"
    using agent_after_session [of req w conv parse cfg] by simp
  from a have dec: "agent_decided parse cfg w req raw =
      agent_run_skill cfg w req raw (js_get (safeJsonParse parse raw) ''skillId'') (Registered s)"
    using agent_decided_registered [of parse raw key s cfg w req] by simp
  from a have run: "agent_run_skill cfg w req raw (js_get (safeJsonParse parse raw) ''skillId'')
        (Registered s) =
           (json_reply 200
              [(''action'', JStr ''run_skill''),
               (''skillId'', js_get (safeJsonParse parse raw) ''skillId''),
               (''title'', JStr (title s)),
               (''assistant'', JStr (summary_fallback (title s) h err)),
               (''tool'', tool_report (resolveSshConfig cfg req) x (now w)),
               (''raw'', JStr raw)],
            [ev, Summarize])"
    using agent_run_skill_fallback [of cfg req w s x ev h err] by simp
  show "code (fst (post_api_brain_agent parse cfg w req)) = 200"
    unfolding top dec run by (simp add: json_reply_def)
  show "js_get (payload (fst (post_api_brain_agent parse cfg w req))) ''assistant''
        = JStr (''Executed '' @ title s @ '' on '' @ h @ ''. (Summary unavailable: ''
                @ (if emessage err \<noteq> [] then emessage err else error_toString err) @ '')'')"
    unfolding top dec run
    by (simp add: json_reply_def summary_fallback_def error_detail_def)
  show "snd (post_api_brain_agent parse cfg w req) = [Decide, ev, Summarize]"
    unfolding top dec run by simp
next
  assume b: "skills_get skillId = Registered sk
    \<and> \<not> missing_password cfg (resolveSshConfig cfg body)
    \<and> execute_skill cfg w (resolveSshConfig cfg body) (Registered sk) = (Some res, evt)
    \<and> ollamaChat (summary_fetch w) = Inl err"
  then show "code (fst (post_api_openclaw_skills cfg w skillId body)) = 200"
    and "js_get (payload (fst (post_api_openclaw_skills cfg w skillId body))) ''summary'' = JNull"
    using skill_endpoint_null_summary [of skillId sk cfg body w res evt err] by simp_all
qed

theorem summary_failure_fallback_witness:
  "js_get (payload (fst (post_api_brain_agent reference_parse locked_config
       (make_world (backend_says vpn_decision) backend_down exec_succeeds) session_request)))
     ''assistant''
   = JStr ''Executed VPN Status on 10.0.0.5. (Summary unavailable: fetch failed)''
 \<and> snd (post_api_brain_agent reference_parse locked_config
       (make_world (backend_says vpn_decision) backend_down exec_succeeds) session_request)
   = [Decide, RunOverSsh locked_target (JStr vpn_status_command), Summarize]
 \<and> code (fst (post_api_openclaw_skills locked_config
       (make_world (backend_says vpn_decision) backend_down exec_succeeds) ''vpn-status''
       (JObj []))) = 200
 \<and> js_get (payload (fst (post_api_openclaw_skills locked_config
       (make_world (backend_says vpn_decision) backend_down exec_succeeds) ''vpn-status''
       (JObj [])))) ''summary'' = JNull"
proof -
  have dec: "safeJsonParse reference_parse vpn_decision
     = JObj [(''action'', JStr ''run_skill''), (''skillId'', JStr ''vpn-status''),
             (''reason'', JStr ''asked'')]"
    by (simp add: safeJsonParse_def reference_parse_vpn)
  have h: "js_ToString (host (resolveSshConfig locked_config session_request)) = Some ''10.0.0.5''"
    by (simp add: locked_target locked_target_def)
  have ex: "execute_skill locked_config
       (make_world (backend_says vpn_decision) backend_down exec_succeeds)
       (resolveSshConfig locked_config req)
       (Registered \<lparr> title = ''VPN Status'', command = vpn_status_command \<rparr>)
     = (Some \<lparr> success = True, stdout = ''all good'', stderr = [], exitCode = 0,
               error = None \<rparr>,
        RunOverSsh locked_target (JStr vpn_status_command))" for req
    using locked_execute
      [of "backend_says vpn_decision" backend_down
          "\<lparr> title = ''VPN Status'', command = vpn_status_command \<rparr>"]
    by (simp add: locked_target)
  have nm: "\<not> missing_password locked_config (resolveSshConfig locked_config req)" for req
    by (simp add: locked_target locked_not_missing)
  have pre: "truthy (js_get session_request ''sessionId'')
    \<and> getConversation (make_world (backend_says vpn_decision) backend_down exec_succeeds)
        (js_get session_request ''sessionId'')
        = Inr (JObj [(''id'', JNum ''7''), (''session_id'', JStr ''s-1'')])
    \<and> truthy (JObj [(''id'', JNum ''7''), (''session_id'', JStr ''s-1'')])
    \<and> getConversationMessages (make_world (backend_says vpn_decision) backend_down exec_succeeds)
        (js_get (JObj [(''id'', JNum ''7''), (''session_id'', JStr ''s-1'')]) ''id'') = Inr []
    \<and> ollamaChat (decide_fetch (make_world (backend_says vpn_decision) backend_down exec_succeeds))
        = Inr vpn_decision
    \<and> js_get (safeJsonParse reference_parse vpn_decision) ''action'' = JStr ''run_skill''
    \<and> js_ToString (js_get (safeJsonParse reference_parse vpn_decision) ''skillId'')
        = Some ''vpn-status''
    \<and> skills_get ''vpn-status''
        = Registered \<lparr> title = ''VPN Status'', command = vpn_status_command \<rparr>
    \<and> ollamaChat (summary_fetch (make_world (backend_says vpn_decision) backend_down exec_succeeds))
        = Inl \<lparr> ename = ''TypeError'', emessage = ''fetch failed'' \<rparr>"
    by (simp add: demo_session ollamaChat_says ollamaChat_down dec skills_get_samples)
  from summary_failure_fallback
    [where req = session_request
       and w = "make_world (backend_says vpn_decision) backend_down exec_succeeds"
       and conv = "JObj [(''id'', JNum ''7''), (''session_id'', JStr ''s-1'')]"
       and history = "[]" and raw = vpn_decision and parse = reference_parse
       and key = "''vpn-status''"
       and s = "\<lparr> title = ''VPN Status'', command = vpn_status_command \<rparr>"
       and cfg = locked_config
       and x = "\<lparr> success = True, stdout = ''all good'', stderr = [], exitCode = 0,
                  error = None \<rparr>"
       and ev = "RunOverSsh locked_target (JStr vpn_status_command)"
       and h = "''10.0.0.5''"
       and err = "\<lparr> ename = ''TypeError'', emessage = ''fetch failed'' \<rparr>"
       and skillId = "''vpn-status''"
       and sk = "\<lparr> title = ''VPN Status'', command = vpn_status_command \<rparr>"
       and body = "JObj []"
       and res = "\<lparr> success = True, stdout = ''all good'', stderr = [], exitCode = 0,
                   error = None \<rparr>"
       and evt = "RunOverSsh locked_target (JStr vpn_status_command)"]
    pre nm ex h
  show ?thesis by simp
qed

text \<open>
  C8 as stated fails on the direct skill endpoint: the skill \<open>quick-fix\<close> is executed,
  the summary call fails, and the reply's summary is \<^verbatim>\<open>null\<close>.
\<close>

theorem skill_summary_counterexample:
  "summary_fetch (make_world backend_down backend_down exec_succeeds) = backend_down
 \<and> code (fst (post_api_openclaw_skills locked_config
       (make_world backend_down backend_down exec_succeeds) ''quick-fix'' (JObj []))) = 200
 \<and> js_get (payload (fst (post_api_openclaw_skills locked_config
       (make_world backend_down backend_down exec_succeeds) ''quick-fix'' (JObj []))))
     ''success'' = JBool True
 \<and> js_get (payload (fst (post_api_openclaw_skills locked_config
       (make_world backend_down backend_down exec_succeeds) ''quick-fix'' (JObj []))))
     ''summary'' = JNull"
proof -
  have r: "fst (post_api_openclaw_skills locked_config
       (make_world backend_down backend_down exec_succeeds) ''quick-fix'' (JObj []))
     = json_reply 200
         [(''success'', JBool True),
          (''skillId'', JStr ''quick-fix''),
          (''title'', JStr ''Auto Fix Orbit''),
          (''host'', JStr ''10.0.0.5''),
          (''user'', JStr ''root''),
          (''exitCode'', JNum ''0''),
          (''stdout'', JStr ''all good''),
          (''stderr'', JStr ''''),
          (''summary'', JNull),
          (''error'', JNull),
          (''executedAt'', JStr ''2026-01-01T00:00:00.000Z'')]"
    by (simp add: post_api_openclaw_skills_def skills_get_samples locked_target
        locked_not_missing locked_execute Let_def demo_session ollamaChat_down)
      (simp add: locked_target_def nullable_def show_int_zero make_world_def)
  show ?thesis
    unfolding r by (simp add: demo_session json_reply_def)
qed

end
